theory Spec2Isabelle
  imports Main "HOL-Library.Word"
begin

section \<open>JavaScript strings\<close>

text \<open>
  A JavaScript string is a sequence of UTF-16 code units, and \<open>length\<close> counts code
  units. String literals of the source are ASCII and are written \<open>js ''...''\<close>.
\<close>

type_synonym jschar = "16 word"
type_synonym jsstring = "jschar list"

definition js :: "string \<Rightarrow> jsstring" where
  "js s = map (\<lambda>c. of_nat (of_char c)) s"

text \<open>
  The code units removed by \<open>String.prototype.trim\<close> and matched by \<open>\s\<close> in a
  regular expression: WhiteSpace and LineTerminator of ECMAScript (TAB, LF, VT, FF, CR,
  SP, NBSP, the Unicode space separators, LS, PS and ZWNBSP).
\<close>

definition is_space :: "jschar \<Rightarrow> bool" where
  "is_space c =
     (c = 0x9 \<or> c = 0xA \<or> c = 0xB \<or> c = 0xC \<or> c = 0xD \<or> c = 0x20 \<or> c = 0xA0 \<or>
      c = 0x1680 \<or> (0x2000 \<le> c \<and> c \<le> 0x200A) \<or> c = 0x2028 \<or> c = 0x2029 \<or>
      c = 0x202F \<or> c = 0x205F \<or> c = 0x3000 \<or> c = 0xFEFF)"

definition trim :: "jsstring \<Rightarrow> jsstring" where
  "trim s = rev (dropWhile is_space (rev (dropWhile is_space s)))"

text \<open>String(b) for a boolean b, as \<open>setAttribute\<close> and \<open>setItem\<close> convert it.\<close>

definition bool_str :: "bool \<Rightarrow> jsstring" where
  "bool_str b = (if b then js ''true'' else js ''false'')"

section \<open>Regular expressions\<close>

text \<open>
  The fragment needed for the email pattern \<open>/^[^\s@]+@[^\s@]+\.[^\s@]+$/\<close>: a
  character class, concatenation and \<open>+\<close>. The remaining constructors are the
  residuals that appear while a string is consumed. With both anchors and no flags,
  \<open>test\<close> decides whether the whole string is in the language of the pattern.
\<close>

datatype regex =
    Class "jschar \<Rightarrow> bool"
  | Cat regex regex
  | Plus regex
  | Star regex
  | Alt regex regex
  | Eps
  | Empty

inductive_set star :: "jsstring set \<Rightarrow> jsstring set" for L :: "jsstring set" where
  star_nil: "[] \<in> star L"
| star_app: "u \<in> L \<Longrightarrow> v \<in> star L \<Longrightarrow> u @ v \<in> star L"

fun lang :: "regex \<Rightarrow> jsstring set" where
  "lang (Class p) = {[c] | c. p c}"
| "lang (Cat r s) = {u @ v | u v. u \<in> lang r \<and> v \<in> lang s}"
| "lang (Plus r) = {u @ v | u v. u \<in> lang r \<and> v \<in> star (lang r)}"
| "lang (Star r) = star (lang r)"
| "lang (Alt r s) = lang r \<union> lang s"
| "lang Eps = {[]}"
| "lang Empty = {}"

fun nullable :: "regex \<Rightarrow> bool" where
  "nullable (Class p) = False"
| "nullable (Cat r s) = (nullable r \<and> nullable s)"
| "nullable (Plus r) = nullable r"
| "nullable (Star r) = True"
| "nullable (Alt r s) = (nullable r \<or> nullable s)"
| "nullable Eps = True"
| "nullable Empty = False"

fun deriv :: "jschar \<Rightarrow> regex \<Rightarrow> regex" where
  "deriv c (Class p) = (if p c then Eps else Empty)"
| "deriv c (Cat r s) =
     (if nullable r then Alt (Cat (deriv c r) s) (deriv c s) else Cat (deriv c r) s)"
| "deriv c (Plus r) = Cat (deriv c r) (Star r)"
| "deriv c (Star r) = Cat (deriv c r) (Star r)"
| "deriv c (Alt r s) = Alt (deriv c r) (deriv c s)"
| "deriv c Eps = Empty"
| "deriv c Empty = Empty"

definition test :: "regex \<Rightarrow> jsstring \<Rightarrow> bool" where
  "test r s = nullable (foldl (\<lambda>r c. deriv c r) r s)"

text \<open>The class \<open>[^\s@]\<close>.\<close>

definition not_space_at :: "jschar \<Rightarrow> bool" where
  "not_space_at c = (\<not> is_space c \<and> c \<noteq> 0x40)"

text \<open>\<open>/^[^\s@]+@[^\s@]+\.[^\s@]+$/\<close>, used by validateField and updateSubmitButtonState.\<close>

definition email_re :: regex where
  "email_re =
     Cat (Plus (Class not_space_at))
       (Cat (Class (\<lambda>c. c = 0x40))
         (Cat (Plus (Class not_space_at))
           (Cat (Class (\<lambda>c. c = 0x2E))
             (Plus (Class not_space_at)))))"

section \<open>The document, the browser and the manager\<close>

text \<open>
  Exceptions of the model: a call of something that is not a function or a property
  read on null (TypeError), a failing storage access (StorageError, the SecurityError or
  QuotaExceededError of Web Storage), a class token with whitespace
  (InvalidCharacterError), and whatever else a method supplied from outside throws.
\<close>

datatype exn = TypeError | StorageError | InvalidCharacterError | OtherError

datatype tagname = INPUT | SELECT | BUTTON | TEXTAREA | OTHER

text \<open>A descendant element of the panel.\<close>

record control =
  tag :: tagname
  toggle_class :: bool
  tabindex :: "jsstring option"

record panel_el =
  p_classes :: "jsstring list"
  p_aria_hidden :: "jsstring option"
  p_controls :: "control list"

record toggle_el =
  aria_expanded :: "jsstring option"

text \<open>A text control of the page (an input or a textarea): its value is a string.\<close>

record field =
  f_id :: jsstring
  f_name :: jsstring
  f_value :: jsstring
  f_aria_invalid :: "jsstring option"
  f_in_form :: bool

record error_el =
  e_text :: jsstring
  e_visible :: bool

record button_el =
  disabled :: bool
  describedby :: "jsstring option"
  b_classes :: "jsstring list"
  b_text :: jsstring

record select_el =
  s_options :: "jsstring list"
  s_value :: jsstring

record checkbox_el =
  checked :: bool
  aria_pressed :: "jsstring option"

text \<open>The two theme widgets: \<open>#themeToggle\<close> (its aria-pressed attribute) and the
  footer checkbox \<open>#toggleTheme\<close>.\<close>

record theme_controls =
  themeToggle :: "jsstring option option"
  toggleTheme :: "bool option"

datatype node = ToggleNode | ControlNode nat | FieldNode nat

text \<open>
  What a timer does when it fires: focus a panel control, remove a live-region node,
  recompute the submit gate, or resolve the promise the submission awaits (the
  simulated send).
\<close>

datatype task =
    FocusControl nat
  | RemoveAnnouncement jsstring
  | UpdateSubmitButtonState
  | ResolveSend

datatype level = Log | Warn | Error

text \<open>
  The state the code reads and writes. Elements looked up by a fixed id are optional
  fields (\<open>None\<close>: \<open>getElementById\<close> returns null); \<open>inputs\<close> are the text controls of
  the page in document order. \<open>this_panel\<close> and \<open>this_toggle\<close> say whether the
  manager's references are non-null; \<open>panelElements\<close> is the node list captured by
  setupPanelTabbing (positions in \<open>p_controls\<close>), present once the observer is
  installed; \<open>mutation_records\<close> are the attribute names of the records queued for
  that observer and not yet delivered; \<open>pending_send\<close> is the button label captured
  by a submission that is waiting for its send to finish.
\<close>

record state =
  root_classes :: "jsstring list"
  root_data_theme :: "jsstring option"
  body_classes :: "jsstring list"
  panel :: "panel_el option"
  toggle :: "toggle_el option"
  inputs :: "field list"
  error_els :: "jsstring \<rightharpoonup> error_el"
  form :: bool
  submitBtn :: "button_el option"
  submitReady :: bool
  textSize_el :: "select_el option"
  highContrast_el :: "checkbox_el option"
  reducedMotion_el :: "checkbox_el option"
  theme_els :: theme_controls
  skip_links :: nat
  announcements :: "jsstring list"
  focused :: "node option"
  storage :: "jsstring \<rightharpoonup> jsstring"
  storage_read_throws :: bool
  storage_write_throws :: bool
  prefers_reduced_motion :: bool
  prefers_dark :: bool
  timers :: "(nat \<times> task) list"
  mutation_records :: "jsstring list"
  console :: "(level \<times> jsstring) list"
  listeners :: "(jsstring \<times> jsstring) list"
  this_panel :: bool
  this_toggle :: bool
  isInitialized :: bool
  panelElements :: "nat list option"
  pending_send :: "jsstring option"

text \<open>How a call ends: it returns, or it throws; the mutations made so far stay.\<close>

datatype outcome = Normal state | Thrown exn state

fun final_state :: "outcome \<Rightarrow> state" where
  "final_state (Normal s) = s"
| "final_state (Thrown e s) = s"

fun then_do :: "outcome \<Rightarrow> (state \<Rightarrow> outcome) \<Rightarrow> outcome" where
  "then_do (Normal s) f = f s"
| "then_do (Thrown e s) f = Thrown e s"

fun try_catch :: "outcome \<Rightarrow> (exn \<Rightarrow> state \<Rightarrow> outcome) \<Rightarrow> outcome" where
  "try_catch (Normal s) h = Normal s"
| "try_catch (Thrown e s) h = h e s"

text \<open>
  The methods that loadUserPreferences calls on \<open>this\<close> and that the class body does
  not define. A method that is \<open>None\<close> is an undefined property, and calling it throws
  a TypeError. A method that is present reads the state and returns the system theme
  (detectSystemTheme), or rewrites the theme widgets and possibly throws
  (updateThemeControls).
\<close>

record methods =
  detectSystemTheme :: "(state \<Rightarrow> exn + jsstring) option"
  updateThemeControls :: "(jsstring \<Rightarrow> theme_controls \<Rightarrow> exn option \<times> theme_controls) option"

section \<open>Storage, class lists, announcements\<close>

definition getItem :: "jsstring \<Rightarrow> state \<Rightarrow> exn + jsstring option" where
  "getItem k s = (if storage_read_throws s then Inl StorageError else Inr (storage s k))"

definition setItem :: "jsstring \<Rightarrow> jsstring \<Rightarrow> state \<Rightarrow> outcome" where
  "setItem k v s =
     (if storage_write_throws s then Thrown StorageError s
      else Normal (s\<lparr>storage := (storage s)(k \<mapsto> v)\<rparr>))"

text \<open>\<open>a || b\<close> for a string-or-null \<open>a\<close>: null and the empty string are falsy.\<close>

definition or_else :: "jsstring option \<Rightarrow> jsstring \<Rightarrow> jsstring" where
  "or_else a b = (case a of None \<Rightarrow> b | Some x \<Rightarrow> if x = [] then b else x)"

text \<open>
  DOMTokenList: \<open>add\<close> throws on a token that is empty or contains ASCII whitespace,
  and otherwise appends the token unless it is there; \<open>remove\<close> deletes it.
\<close>

definition ascii_space :: "jschar \<Rightarrow> bool" where
  "ascii_space c = (c = 0x9 \<or> c = 0xA \<or> c = 0xC \<or> c = 0xD \<or> c = 0x20)"

definition valid_token :: "jsstring \<Rightarrow> bool" where
  "valid_token t = (t \<noteq> [] \<and> \<not> list_ex ascii_space t)"

definition class_add :: "jsstring \<Rightarrow> jsstring list \<Rightarrow> jsstring list" where
  "class_add t cs = (if t \<in> set cs then cs else cs @ [t])"

definition class_remove :: "jsstring \<Rightarrow> jsstring list \<Rightarrow> jsstring list" where
  "class_remove t cs = filter (\<lambda>c. c \<noteq> t) cs"

definition class_toggle :: "jsstring \<Rightarrow> bool \<Rightarrow> jsstring list \<Rightarrow> jsstring list" where
  "class_toggle t force cs = (if force then class_add t cs else class_remove t cs)"

definition log_msg :: "level \<Rightarrow> string \<Rightarrow> state \<Rightarrow> state" where
  "log_msg l m s = s\<lparr>console := console s @ [(l, js m)]\<rparr>"

definition addEventListener :: "string \<Rightarrow> string \<Rightarrow> state \<Rightarrow> state" where
  "addEventListener target event s = s\<lparr>listeners := listeners s @ [(js target, js event)]\<rparr>"

definition setTimeout :: "task \<Rightarrow> nat \<Rightarrow> state \<Rightarrow> state" where
  "setTimeout t ms s = s\<lparr>timers := timers s @ [(ms, t)]\<rparr>"

definition announceToScreenReader :: "jsstring \<Rightarrow> state \<Rightarrow> state" where
  "announceToScreenReader message s =
     setTimeout (RemoveAnnouncement message) 1000
       (s\<lparr>announcements := announcements s @ [message]\<rparr>)"

section \<open>Preference setters\<close>

definition setTextSize :: "jsstring \<Rightarrow> state \<Rightarrow> outcome" where
  "setTextSize sz s =
     (let s1 = s\<lparr>root_classes :=
                  class_remove (js ''text-extra-large'')
                    (class_remove (js ''text-large'') (root_classes s))\<rparr>
      in then_do
           (if sz \<noteq> js ''normal'' then
              (if valid_token (js ''text-'' @ sz)
               then Normal (s1\<lparr>root_classes := class_add (js ''text-'' @ sz) (root_classes s1)\<rparr>)
               else Thrown InvalidCharacterError s1)
            else Normal s1)
           (\<lambda>s2. then_do (setItem (js ''textSize'') sz s2)
              (\<lambda>s3. Normal (announceToScreenReader (js ''Text size changed to '' @ sz) s3))))"

definition setHighContrast :: "bool \<Rightarrow> state \<Rightarrow> outcome" where
  "setHighContrast enabled s =
     then_do
       (setItem (js ''highContrast'') (bool_str enabled)
          (s\<lparr>root_classes := class_toggle (js ''high-contrast'') enabled (root_classes s)\<rparr>))
       (\<lambda>s1. Normal (announceToScreenReader
          (js ''High contrast mode '' @ (if enabled then js ''enabled'' else js ''disabled'')) s1))"

definition setReducedMotion :: "bool \<Rightarrow> state \<Rightarrow> outcome" where
  "setReducedMotion enabled s =
     then_do
       (setItem (js ''reducedMotion'') (bool_str enabled)
          (s\<lparr>root_classes := class_toggle (js ''reduce-motion'') enabled (root_classes s)\<rparr>))
       (\<lambda>s1. Normal (announceToScreenReader
          (js ''Reduced motion '' @ (if enabled then js ''enabled'' else js ''disabled'')) s1))"

definition setTheme :: "jsstring \<Rightarrow> state \<Rightarrow> outcome" where
  "setTheme theme s =
     then_do (setItem (js ''theme'') theme (s\<lparr>root_data_theme := Some theme\<rparr>))
       (\<lambda>s1. Normal (announceToScreenReader (js ''Switched to '' @ theme @ js '' theme'') s1))"

section \<open>The accessibility panel\<close>

fun first_index :: "('a \<Rightarrow> bool) \<Rightarrow> 'a list \<Rightarrow> nat option" where
  "first_index P [] = None"
| "first_index P (x # xs) = (if P x then Some 0 else map_option Suc (first_index P xs))"

text \<open>The positions of the elements a selector matches, in document order.\<close>

definition querySelectorAll :: "('a \<Rightarrow> bool) \<Rightarrow> 'a list \<Rightarrow> nat list" where
  "querySelectorAll P xs = map fst (filter (\<lambda>(i, x). P x) (enumerate 0 xs))"

text \<open>\<open>input, select, button:not(.accessibility-toggle)\<close>\<close>

definition tab_selector :: "control \<Rightarrow> bool" where
  "tab_selector c = (tag c = INPUT \<or> tag c = SELECT \<or> (tag c = BUTTON \<and> \<not> toggle_class c))"

text \<open>\<open>input, select, button, textarea, [tabindex]\<close>\<close>

definition focusable_selector :: "control \<Rightarrow> bool" where
  "focusable_selector c =
     (tag c = INPUT \<or> tag c = SELECT \<or> tag c = BUTTON \<or> tag c = TEXTAREA \<or> tabindex c \<noteq> None)"

text \<open>\<open>forEach(element => element.setAttribute('tabindex', v))\<close> over a captured node list.\<close>

definition set_tabindex :: "jsstring \<Rightarrow> nat list \<Rightarrow> control list \<Rightarrow> control list" where
  "set_tabindex v idxs cs =
     map (\<lambda>(i, c). if i \<in> set idxs then c\<lparr>tabindex := Some v\<rparr> else c) (enumerate 0 cs)"

text \<open>
  An attribute write on the panel queues a record for the observer, once
  \<open>observer.observe(this.panel, { attributes: true })\<close> has run. The records are
  delivered later, in a microtask, after the running script has returned.
\<close>

definition queue_record :: "string \<Rightarrow> state \<Rightarrow> state" where
  "queue_record attributeName s =
     (if panelElements s = None then s
      else s\<lparr>mutation_records := mutation_records s @ [js attributeName]\<rparr>)"

definition setupPanelTabbing :: "state \<Rightarrow> outcome" where
  "setupPanelTabbing s =
     (case panel s of
        None \<Rightarrow> Thrown TypeError s
      | Some p \<Rightarrow>
          (let panelEls = querySelectorAll tab_selector (p_controls p)
           in Normal (s\<lparr>panel := Some (p\<lparr>p_controls := set_tabindex (js ''-1'') panelEls (p_controls p)\<rparr>),
                        panelElements := Some panelEls\<rparr>)))"

text \<open>The observer's callback, for one record.\<close>

definition observer_callback :: "state \<Rightarrow> jsstring \<Rightarrow> state" where
  "observer_callback s attributeName =
     (if attributeName = js ''aria-hidden'' then
        (case (panel s, panelElements s) of
           (Some p, Some panelEls) \<Rightarrow>
             (let isHidden = (p_aria_hidden p = Some (js ''true''))
              in s\<lparr>panel := Some (p\<lparr>p_controls :=
                     set_tabindex (if isHidden then js ''-1'' else js ''0'') panelEls (p_controls p)\<rparr>)\<rparr>)
         | _ \<Rightarrow> s)
      else s)"

text \<open>The microtask that hands the queued records to the callback.\<close>

definition deliver_mutations :: "state \<Rightarrow> state" where
  "deliver_mutations s = (foldl observer_callback s (mutation_records s))\<lparr>mutation_records := []\<rparr>"

definition openPanel :: "state \<Rightarrow> state" where
  "openPanel s =
     (case (this_panel s, panel s, this_toggle s, toggle s) of
        (True, Some p, True, Some t) \<Rightarrow>
          (let s1 = queue_record ''class'' (s\<lparr>panel := Some (p\<lparr>p_classes := class_add (js ''open'') (p_classes p)\<rparr>)\<rparr>);
               s2 = s1\<lparr>toggle := Some (t\<lparr>aria_expanded := Some (js ''true'')\<rparr>)\<rparr>;
               s3 = queue_record ''aria-hidden''
                      (s2\<lparr>panel := map_option (\<lambda>p. p\<lparr>p_aria_hidden := Some (js ''false'')\<rparr>) (panel s2)\<rparr>);
               s4 = (case first_index focusable_selector (p_controls p) of
                       Some i \<Rightarrow> setTimeout (FocusControl i) 100 s3
                     | None \<Rightarrow> s3)
           in announceToScreenReader (js ''Accessibility panel opened'') s4)
      | _ \<Rightarrow> s)"

definition closePanel :: "state \<Rightarrow> state" where
  "closePanel s =
     (case (this_panel s, panel s, this_toggle s, toggle s) of
        (True, Some p, True, Some t) \<Rightarrow>
          (let s1 = queue_record ''class'' (s\<lparr>panel := Some (p\<lparr>p_classes := class_remove (js ''open'') (p_classes p)\<rparr>)\<rparr>);
               s2 = s1\<lparr>toggle := Some (t\<lparr>aria_expanded := Some (js ''false'')\<rparr>)\<rparr>;
               s3 = queue_record ''aria-hidden''
                      (s2\<lparr>panel := map_option (\<lambda>p. p\<lparr>p_aria_hidden := Some (js ''true'')\<rparr>) (panel s2)\<rparr>)
           in announceToScreenReader (js ''Accessibility panel closed'') s3)
      | _ \<Rightarrow> s)"

text \<open>\<open>this.panel.classList.contains('open')\<close>, for a non-null \<open>this.panel\<close>.\<close>

definition panel_is_open :: "state \<Rightarrow> bool" where
  "panel_is_open s = (case panel s of Some p \<Rightarrow> js ''open'' \<in> set (p_classes p) | None \<Rightarrow> False)"

definition handleToggleClick :: "state \<Rightarrow> outcome" where
  "handleToggleClick s =
     (if \<not> this_panel s \<or> panel s = None then Thrown TypeError s
      else if panel_is_open s then Normal (closePanel s)
      else Normal (openPanel s))"

text \<open>The argument says whether the click target is inside the panel.\<close>

definition handleDocumentClick :: "bool \<Rightarrow> state \<Rightarrow> state" where
  "handleDocumentClick target_in_panel s =
     (if this_panel s \<and> panel_is_open s \<and> \<not> target_in_panel then closePanel s else s)"

definition handleKeydown :: "jsstring \<Rightarrow> state \<Rightarrow> outcome" where
  "handleKeydown key s =
     then_do
       (if key = js ''Escape'' \<and> this_panel s \<and> panel_is_open s then
          (let s1 = closePanel s
           in if this_toggle s1 then Normal (s1\<lparr>focused := Some ToggleNode\<rparr>)
              else Thrown TypeError s1)
        else Normal s)
       (\<lambda>s2. Normal (if key = js ''Tab''
                      then s2\<lparr>body_classes := class_add (js ''keyboard-navigation'') (body_classes s2)\<rparr>
                      else s2))"

section \<open>Form validation\<close>

text \<open>\<open>document.getElementById\<close> for a text control: the first one with the id, and
  its position.\<close>

definition getElementById :: "jsstring \<Rightarrow> state \<Rightarrow> (nat \<times> field) option" where
  "getElementById fid s =
     (case first_index (\<lambda>f. f_id f = fid) (inputs s) of
        None \<Rightarrow> None
      | Some i \<Rightarrow> Some (i, inputs s ! i))"

definition requiredFields :: "jsstring list" where
  "requiredFields = [js ''name'', js ''email'', js ''message'']"

text \<open>The \<open>switch (fieldName)\<close> of validateField on the trimmed value: isValid and
  errorMessage.\<close>

definition field_rule :: "jsstring \<Rightarrow> jsstring \<Rightarrow> bool \<times> jsstring" where
  "field_rule fieldName v =
     (if fieldName = js ''name'' then
        (if v = [] then (False, js ''Name is required'')
         else if length v < 2 then (False, js ''Name must be at least 2 characters long'')
         else (True, []))
      else if fieldName = js ''email'' then
        (if v = [] then (False, js ''Email is required'')
         else if \<not> test email_re v then (False, js ''Please enter a valid email address'')
         else (True, []))
      else if fieldName = js ''message'' then
        (if v = [] then (False, js ''Message is required'')
         else if length v < 10 then (False, js ''Message must be at least 10 characters long'')
         else (True, []))
      else (True, []))"

text \<open>The field is passed as its position and its current content.\<close>

definition displayFieldError :: "nat \<Rightarrow> field \<Rightarrow> jsstring \<Rightarrow> state \<Rightarrow> state" where
  "displayFieldError i f message s =
     (let s1 = (case error_els s (f_name f @ js ''Error'') of
                  Some e \<Rightarrow> s\<lparr>error_els := (error_els s)(f_name f @ js ''Error'' \<mapsto>
                               e\<lparr>e_text := message, e_visible := (message \<noteq> [])\<rparr>)\<rparr>
                | None \<Rightarrow> s)
      in s1\<lparr>inputs := (inputs s1)[i := f\<lparr>f_aria_invalid := Some (bool_str (message \<noteq> []))\<rparr>]\<rparr>)"

definition clearFieldError :: "nat \<Rightarrow> field \<Rightarrow> state \<Rightarrow> state" where
  "clearFieldError i f s =
     (let s1 = (case error_els s (f_name f @ js ''Error'') of
                  Some e \<Rightarrow> s\<lparr>error_els := (error_els s)(f_name f @ js ''Error'' \<mapsto>
                               e\<lparr>e_text := [], e_visible := False\<rparr>)\<rparr>
                | None \<Rightarrow> s)
      in s1\<lparr>inputs := (inputs s1)[i := f\<lparr>f_aria_invalid := Some (js ''false'')\<rparr>]\<rparr>)"

definition validateField :: "nat \<Rightarrow> field \<Rightarrow> state \<Rightarrow> bool \<times> state" where
  "validateField i f s =
     (let v = trim (f_value f);
          (isValid, errorMessage) = field_rule (f_name f) v;
          s1 = displayFieldError i f errorMessage s;
          s2 = setTimeout UpdateSubmitButtonState 0 s1
      in (isValid, s2))"

text \<open>One round of the \<open>forEach\<close> of updateSubmitButtonState on the flag allFieldsValid.\<close>

definition gate_step :: "state \<Rightarrow> bool \<Rightarrow> jsstring \<Rightarrow> bool" where
  "gate_step s allFieldsValid fieldId =
     (case getElementById fieldId s of
        None \<Rightarrow> allFieldsValid
      | Some (i, f) \<Rightarrow>
          (let v = trim (f_value f);
               a1 = (if v = [] \<or> length v < (if fieldId = js ''message'' then 10 else 2)
                     then False else allFieldsValid);
               a2 = (if fieldId = js ''email'' \<and> v \<noteq> [] \<and> \<not> test email_re v
                     then False else a1)
           in a2))"

definition updateSubmitButtonState :: "state \<Rightarrow> state" where
  "updateSubmitButtonState s =
     (case submitBtn s of
        None \<Rightarrow> s
      | Some b \<Rightarrow>
          (let allFieldsValid = foldl (gate_step s) True requiredFields;
               b1 = b\<lparr>disabled := \<not> allFieldsValid\<rparr>
           in if allFieldsValid
              then s\<lparr>submitBtn := Some (b1\<lparr>describedby := Some (js ''submitReady'')\<rparr>),
                     submitReady := True\<rparr>
              else s\<lparr>submitBtn := Some (b1\<lparr>describedby := None\<rparr>),
                     submitReady := False\<rparr>))"

text \<open>One round of the \<open>forEach\<close> of validateAndSubmitForm on the flag isFormValid.\<close>

definition validate_step :: "bool \<times> state \<Rightarrow> jsstring \<Rightarrow> bool \<times> state" where
  "validate_step acc fieldName =
     (case getElementById fieldName (snd acc) of
        None \<Rightarrow> acc
      | Some (i, f) \<Rightarrow>
          (let (ok, s1) = validateField i f (snd acc)
           in (if \<not> ok then False else fst acc, s1)))"

text \<open>\<open>form.querySelector('[aria-invalid="true"]')\<close>\<close>

definition firstErrorField :: "state \<Rightarrow> nat option" where
  "firstErrorField s =
     first_index (\<lambda>f. f_in_form f \<and> f_aria_invalid f = Some (js ''true'')) (inputs s)"

text \<open>
  The part of validateAndSubmitForm that runs up to the \<open>await\<close>, for the button
  \<open>submitBtn\<close> the submit listener passes. The send is the promise resolved by a
  2000 ms timer; the button's label is kept for the code that runs after it.
\<close>

definition validateAndSubmitForm :: "button_el \<Rightarrow> state \<Rightarrow> state" where
  "validateAndSubmitForm b s =
     (let (isFormValid, s1) = foldl validate_step (True, s) requiredFields
      in if \<not> isFormValid then
           (let s2 = announceToScreenReader (js ''Please correct the errors in the form'') s1
            in case firstErrorField s2 of
                 Some i \<Rightarrow> s2\<lparr>focused := Some (FieldNode i)\<rparr>
               | None \<Rightarrow> s2)
         else
           (let originalText = b_text b;
                s2 = s1\<lparr>submitBtn := Some (b\<lparr>b_classes := class_add (js ''loading'') (b_classes b),
                                               disabled := True,
                                               b_text := js ''Sending...''\<rparr>)\<rparr>
            in setTimeout ResolveSend 2000 (s2\<lparr>pending_send := Some originalText\<rparr>)))"

text \<open>The listeners setupFormValidation attaches to a required field that exists.\<close>

definition on_blur :: "jsstring \<Rightarrow> state \<Rightarrow> state" where
  "on_blur fieldId s =
     (case getElementById fieldId s of
        None \<Rightarrow> s
      | Some (i, f) \<Rightarrow> snd (validateField i f s))"

definition on_input :: "jsstring \<Rightarrow> state \<Rightarrow> state" where
  "on_input fieldId s =
     (case getElementById fieldId s of
        None \<Rightarrow> s
      | Some (i, f) \<Rightarrow> updateSubmitButtonState (clearFieldError i f s))"

definition on_submit :: "state \<Rightarrow> state" where
  "on_submit s =
     (case submitBtn s of
        Some b \<Rightarrow> if form s then validateAndSubmitForm b s else s
      | None \<Rightarrow> s)"

section \<open>Startup\<close>

definition setupPreferenceControls :: "state \<Rightarrow> state" where
  "setupPreferenceControls s =
     (let s1 = (if textSize_el s \<noteq> None then addEventListener ''textSize'' ''change'' s else s);
          s2 = (if highContrast_el s1 \<noteq> None then addEventListener ''highContrast'' ''change'' s1 else s1)
      in if reducedMotion_el s2 \<noteq> None then addEventListener ''reducedMotion'' ''change'' s2 else s2)"

definition setupAccessibilityPanel :: "state \<Rightarrow> outcome" where
  "setupAccessibilityPanel s =
     (let s1 = s\<lparr>this_panel := (panel s \<noteq> None), this_toggle := (toggle s \<noteq> None)\<rparr>
      in if \<not> this_panel s1 \<or> \<not> this_toggle s1
         then Normal (log_msg Warn ''Accessibility panel elements not found'' s1)
         else then_do
                (setupPanelTabbing
                   (addEventListener ''document'' ''keydown''
                     (addEventListener ''document'' ''click''
                       (addEventListener ''accessibilityToggle'' ''click'' s1))))
                (\<lambda>s2. Normal (setupPreferenceControls s2)))"

definition setupThemeToggle :: "state \<Rightarrow> state" where
  "setupThemeToggle s =
     (let s1 = (if themeToggle (theme_els s) \<noteq> None then addEventListener ''themeToggle'' ''click'' s else s)
      in if toggleTheme (theme_els s1) \<noteq> None then addEventListener ''toggleTheme'' ''change'' s1 else s1)"

definition setupFormValidation :: "state \<Rightarrow> state" where
  "setupFormValidation s =
     (if \<not> form s \<or> submitBtn s = None then s
      else foldl (\<lambda>s1 fieldId.
                    if getElementById fieldId s1 \<noteq> None
                    then s1\<lparr>listeners := listeners s1 @ [(fieldId, js ''blur''), (fieldId, js ''input'')]\<rparr>
                    else s1)
             (addEventListener ''contactForm'' ''submit'' (updateSubmitButtonState s))
             requiredFields)"

definition setupKeyboardNavigation :: "state \<Rightarrow> state" where
  "setupKeyboardNavigation s =
     foldl (\<lambda>s1 link. addEventListener ''.skip-link'' ''click'' s1)
       (addEventListener ''document'' ''mousedown'' s) [0..<skip_links s]"

definition setupReducedMotion :: "state \<Rightarrow> outcome" where
  "setupReducedMotion s =
     then_do
       (if prefers_reduced_motion s
        then setReducedMotion True
               (s\<lparr>reducedMotion_el := map_option (\<lambda>c. c\<lparr>checked := True\<rparr>) (reducedMotion_el s)\<rparr>)
        else Normal s)
       (\<lambda>s1. Normal (addEventListener ''(prefers-reduced-motion: reduce)'' ''change'' s1))"

definition call_detectSystemTheme :: "methods \<Rightarrow> state \<Rightarrow> exn + jsstring" where
  "call_detectSystemTheme m s =
     (case detectSystemTheme m of None \<Rightarrow> Inl TypeError | Some f \<Rightarrow> f s)"

definition call_updateThemeControls :: "methods \<Rightarrow> jsstring \<Rightarrow> state \<Rightarrow> outcome" where
  "call_updateThemeControls m theme s =
     (case updateThemeControls m of
        None \<Rightarrow> Thrown TypeError s
      | Some f \<Rightarrow>
          (case f theme (theme_els s) of
             (None, c) \<Rightarrow> Normal (s\<lparr>theme_els := c\<rparr>)
           | (Some e, c) \<Rightarrow> Thrown e (s\<lparr>theme_els := c\<rparr>)))"

text \<open>Assigning \<open>select.value\<close> selects the option with that value, or none.\<close>

definition set_select_value :: "jsstring \<Rightarrow> select_el \<Rightarrow> select_el" where
  "set_select_value v e = e\<lparr>s_value := (if v \<in> set (s_options e) then v else [])\<rparr>"

text \<open>The statements of the \<open>try\<close> block after the four preferences are read.\<close>

definition apply_preferences ::
    "methods \<Rightarrow> jsstring \<Rightarrow> jsstring \<Rightarrow> bool \<Rightarrow> bool \<Rightarrow> state \<Rightarrow> outcome" where
  "apply_preferences m savedTheme savedTextSize savedHighContrast savedReducedMotion s =
     then_do (setTheme savedTheme s) (\<lambda>s1.
     then_do (setTextSize savedTextSize s1) (\<lambda>s2.
     then_do (setHighContrast savedHighContrast s2) (\<lambda>s3.
     then_do (setReducedMotion savedReducedMotion s3) (\<lambda>s4.
     then_do (call_updateThemeControls m savedTheme s4) (\<lambda>s5.
       Normal (s5\<lparr>textSize_el := map_option (set_select_value savedTextSize) (textSize_el s5),
                  highContrast_el :=
                    map_option (\<lambda>c. c\<lparr>aria_pressed := Some (bool_str savedHighContrast)\<rparr>) (highContrast_el s5),
                  reducedMotion_el :=
                    map_option (\<lambda>c. c\<lparr>aria_pressed := Some (bool_str savedReducedMotion)\<rparr>) (reducedMotion_el s5)\<rparr>))))))"

definition loadUserPreferences :: "methods \<Rightarrow> state \<Rightarrow> outcome" where
  "loadUserPreferences m s =
     try_catch
       (case call_detectSystemTheme m s of
          Inl e \<Rightarrow> Thrown e s
        | Inr systemTheme \<Rightarrow>
       (case getItem (js ''theme'') s of
          Inl e \<Rightarrow> Thrown e s
        | Inr theme \<Rightarrow>
       (case getItem (js ''textSize'') s of
          Inl e \<Rightarrow> Thrown e s
        | Inr textSize \<Rightarrow>
       (case getItem (js ''highContrast'') s of
          Inl e \<Rightarrow> Thrown e s
        | Inr highContrast \<Rightarrow>
       (case getItem (js ''reducedMotion'') s of
          Inl e \<Rightarrow> Thrown e s
        | Inr reducedMotion \<Rightarrow>
            apply_preferences m
              (or_else theme systemTheme)
              (or_else textSize (js ''normal''))
              (highContrast = Some (js ''true''))
              (reducedMotion = Some (js ''true''))
              s)))))
       (\<lambda>error s1.
          then_do (setTheme (js ''dark'') (log_msg Warn ''Error loading user preferences:'' s1))
            (\<lambda>s2. call_updateThemeControls m (js ''dark'') s2))"

definition initializeComponents :: "methods \<Rightarrow> state \<Rightarrow> outcome" where
  "initializeComponents m s =
     try_catch
       (then_do (setupAccessibilityPanel s) (\<lambda>s1.
        then_do (Normal (setupThemeToggle s1)) (\<lambda>s2.
        then_do (Normal (setupFormValidation s2)) (\<lambda>s3.
        then_do (Normal (setupKeyboardNavigation s3)) (\<lambda>s4.
        then_do (setupReducedMotion s4) (\<lambda>s5.
        then_do (loadUserPreferences m s5) (\<lambda>s6.
          Normal (log_msg Log ''Accessibility Manager initialized successfully''
                    (s6\<lparr>isInitialized := True\<rparr>)))))))))
       (\<lambda>error s1. Normal (log_msg Error ''Error initializing Accessibility Manager:'' s1))"

text \<open>The class as the source has it: neither method is defined.\<close>

definition AccessibilityManager :: methods where
  "AccessibilityManager = \<lparr>detectSystemTheme = None, updateThemeControls = None\<rparr>"

section \<open>Pages used as examples\<close>

text \<open>A page with none of the elements, and a page with the contact form.\<close>

definition empty_page :: state where
  "empty_page =
     \<lparr>root_classes = [], root_data_theme = None, body_classes = [], panel = None,
      toggle = None, inputs = [], error_els = Map.empty, form = False, submitBtn = None,
      submitReady = False, textSize_el = None, highContrast_el = None,
      reducedMotion_el = None, theme_els = \<lparr>themeToggle = None, toggleTheme = None\<rparr>,
      skip_links = 0, announcements = [], focused = None, storage = Map.empty,
      storage_read_throws = False, storage_write_throws = False,
      prefers_reduced_motion = False, prefers_dark = False, timers = [],
      mutation_records = [], console = [], listeners = [], this_panel = False,
      this_toggle = False, isInitialized = False, panelElements = None,
      pending_send = None\<rparr>"

definition text_field :: "string \<Rightarrow> string \<Rightarrow> field" where
  "text_field n v = \<lparr>f_id = js n, f_name = js n, f_value = js v, f_aria_invalid = None, f_in_form = True\<rparr>"

definition contact_page :: "string \<Rightarrow> string \<Rightarrow> string \<Rightarrow> state" where
  "contact_page n e m =
     empty_page\<lparr>form := True,
                submitBtn := Some \<lparr>disabled = False, describedby = None, b_classes = [], b_text = js ''Send''\<rparr>,
                inputs := [text_field ''name'' n, text_field ''email'' e, text_field ''message'' m],
                error_els := [js ''nameError'' \<mapsto> \<lparr>e_text = [], e_visible = False\<rparr>,
                              js ''emailError'' \<mapsto> \<lparr>e_text = [], e_visible = False\<rparr>,
                              js ''messageError'' \<mapsto> \<lparr>e_text = [], e_visible = False\<rparr>]\<rparr>"


section \<open>Notions used in the statements\<close>

text \<open>The text-size classes on the document root.\<close>

definition size_classes :: "state \<Rightarrow> jsstring list" where
  "size_classes s =
     filter (\<lambda>c. c = js ''text-large'' \<or> c = js ''text-extra-large'') (root_classes s)"

text \<open>A run of setTextSize calls: a call that throws ends there, and the next one starts
  from the state it left.\<close>

definition setTextSize_calls :: "jsstring list \<Rightarrow> state \<Rightarrow> state" where
  "setTextSize_calls sizes s = foldl (\<lambda>s1 sz. final_state (setTextSize sz s1)) s sizes"

text \<open>The contact page without the email element.\<close>

definition page_without_email :: state where
  "page_without_email =
     (contact_page ''Alice'' '''' ''Hello, this is long enough.'')
       \<lparr>inputs := [text_field ''name'' ''Alice'', text_field ''message'' ''Hello, this is long enough.'']\<rparr>"

text \<open>The three DOM representations of the panel state.\<close>

definition has_open_class :: "state \<Rightarrow> bool" where
  "has_open_class s = (\<exists>p. panel s = Some p \<and> js ''open'' \<in> set (p_classes p))"

text \<open>aria-hidden="false" on the panel.\<close>

definition hidden_false :: "state \<Rightarrow> bool" where
  "hidden_false s = (\<exists>p. panel s = Some p \<and> p_aria_hidden p = Some (js ''false''))"

text \<open>aria-expanded="true" on the toggle.\<close>

definition expanded_true :: "state \<Rightarrow> bool" where
  "expanded_true s = (\<exists>t. toggle s = Some t \<and> aria_expanded t = Some (js ''true''))"

text \<open>The manager holds both elements.\<close>

definition wired :: "state \<Rightarrow> bool" where
  "wired s = (this_panel s \<and> this_toggle s \<and> panel s \<noteq> None \<and> toggle s \<noteq> None)"

text \<open>A page with a closed panel that holds the toggle button, a select and an input.\<close>

definition panel_page :: state where
  "panel_page =
     empty_page\<lparr>panel := Some \<lparr>p_classes = [js ''accessibility-panel''],
                                 p_aria_hidden = Some (js ''true''),
                                 p_controls = [\<lparr>tag = BUTTON, toggle_class = True, tabindex = None\<rparr>,
                                               \<lparr>tag = SELECT, toggle_class = False, tabindex = None\<rparr>,
                                               \<lparr>tag = INPUT, toggle_class = False, tabindex = None\<rparr>]\<rparr>,
                toggle := Some \<lparr>aria_expanded = Some (js ''false'')\<rparr>\<rparr>"

text \<open>The tabindex attributes of the controls setupPanelTabbing selects.\<close>

definition panel_tabindexes :: "state \<Rightarrow> jsstring option list" where
  "panel_tabindexes s =
     (case panel s of None \<Rightarrow> [] | Some p \<Rightarrow> map tabindex (filter tab_selector (p_controls p)))"

text \<open>The observer is installed and has captured the controls the selector matches.\<close>

definition observing :: "state \<Rightarrow> bool" where
  "observing s =
     (wired s \<and>
      (\<exists>p. panel s = Some p \<and> panelElements s = Some (querySelectorAll tab_selector (p_controls p))))"

text \<open>The example page after setupAccessibilityPanel.\<close>

definition panel_ready :: state where
  "panel_ready = final_state (setupAccessibilityPanel panel_page)"

text \<open>A timer that resolves the awaited send.\<close>

definition is_send :: "nat \<times> task \<Rightarrow> bool" where
  "is_send t = (snd t = ResolveSend)"

text \<open>\<open>s'\<close> differs from \<open>s\<close> at most in what validateField writes: aria-invalid flags,
  error elements and timers that recompute the gate.\<close>

definition validated_from :: "state \<Rightarrow> state \<Rightarrow> bool" where
  "validated_from s s' =
     (map f_id (inputs s') = map f_id (inputs s) \<and>
      map f_name (inputs s') = map f_name (inputs s) \<and>
      map f_value (inputs s') = map f_value (inputs s) \<and>
      map f_in_form (inputs s') = map f_in_form (inputs s) \<and>
      submitBtn s' = submitBtn s \<and> pending_send s' = pending_send s \<and>
      announcements s' = announcements s \<and> focused s' = focused s \<and>
      filter is_send (timers s') = filter is_send (timers s))"

text \<open>Whether the element found for an id passes validateField.\<close>

definition passes :: "state \<Rightarrow> jsstring \<Rightarrow> bool" where
  "passes s fid =
     (case getElementById fid s of None \<Rightarrow> True | Some (i, f) \<Rightarrow> fst (validateField i f s))"

text \<open>
  Modelled from the spec: the two methods the class body lacks, as the specification
  describes them. detectSystemTheme gives the system media-query signal for the theme;
  updateThemeControls brings the two theme widgets in line with the theme and calls no
  setter.
\<close>

definition described_methods :: methods where
  "described_methods =
     \<lparr>detectSystemTheme = Some (\<lambda>s. Inr (if prefers_dark s then js ''dark'' else js ''light'')),
      updateThemeControls = Some (\<lambda>theme c.
        (None, c\<lparr>themeToggle := map_option (\<lambda>a. Some (bool_str (theme = js ''dark''))) (themeToggle c),
                  toggleTheme := map_option (\<lambda>a. theme = js ''dark'') (toggleTheme c)\<rparr>))\<rparr>"

text \<open>What the setup steps before setupReducedMotion leave alone: whether storage throws,
  the media queries, the stored entries and the classes of the document root.\<close>

definition env_of ::
    "state \<Rightarrow> bool \<times> bool \<times> bool \<times> bool \<times> (jsstring \<rightharpoonup> jsstring) \<times> jsstring list" where
  "env_of s =
     (storage_read_throws s, storage_write_throws s, prefers_reduced_motion s, prefers_dark s,
      storage s, root_classes s)"


text \<open>A page whose stored preferences are all missing, on a system that asks for the
  light colour scheme; the document starts with the light theme.\<close>

definition light_system_page :: state where
  "light_system_page = empty_page\<lparr>prefers_dark := False, root_data_theme := Some (js ''light'')\<rparr>"

section \<open>The matcher decides the language of the pattern\<close>

lemma star_cons_iff:
  "c # w \<in> star L \<longleftrightarrow> (\<exists>u v. w = u @ v \<and> c # u \<in> L \<and> v \<in> star L)"
proof
  assume "c # w \<in> star L"
  then show "\<exists>u v. w = u @ v \<and> c # u \<in> L \<and> v \<in> star L"
  proof (induction "c # w" arbitrary: w rule: star.induct)
    case (star_app u v)
    show ?case
    proof (cases u)
      case Nil
      with star_app show ?thesis by simp
    next
      case (Cons a u')
      with star_app.hyps(1,2,4) show ?thesis by auto
    qed
  qed
next
  assume "\<exists>u v. w = u @ v \<and> c # u \<in> L \<and> v \<in> star L"
  then obtain u v where "w = u @ v" "c # u \<in> L" "v \<in> star L" by blast
  then have "(c # u) @ v \<in> star L" by (intro star.star_app)
  with \<open>w = u @ v\<close> show "c # w \<in> star L" by simp
qed

lemma nullable_iff: "nullable r \<longleftrightarrow> [] \<in> lang r"
  by (induction r) (auto intro: star.star_nil)

lemma lang_deriv: "lang (deriv c r) = {w. c # w \<in> lang r}"
proof (induction r)
  case (Cat r1 r2)
  then show ?case
    by (auto simp: nullable_iff Cons_eq_append_conv append_eq_Cons_conv) 
next
  case (Plus r)
  then show ?case
    by (auto simp: nullable_iff Cons_eq_append_conv append_eq_Cons_conv star_cons_iff)
next
  case (Star r)
  then show ?case by (auto simp: star_cons_iff)
qed auto

lemma test_iff_lang: "test r s \<longleftrightarrow> s \<in> lang r"
  unfolding test_def
  by (induction s arbitrary: r) (simp_all add: nullable_iff lang_deriv)

section \<open>Email validation\<close>

text \<open>
  C3: validateField, on a field named email, returns true for the value
  user@example.com and false for user@, for user example.com and for the empty string.
\<close>

theorem validateField_email_examples:
  "fst (validateField i (f\<lparr>f_name := js ''email'', f_value := js ''user@example.com''\<rparr>) s)
   \<and> \<not> fst (validateField i (f\<lparr>f_name := js ''email'', f_value := js ''user@''\<rparr>) s)
   \<and> \<not> fst (validateField i (f\<lparr>f_name := js ''email'', f_value := js ''user example.com''\<rparr>) s)
   \<and> \<not> fst (validateField i (f\<lparr>f_name := js ''email'', f_value := js ''''\<rparr>) s)"
  by (simp add: validateField_def field_rule_def trim_def is_space_def js_def test_def
        email_re_def not_space_at_def Let_def split_beta)

theorem validateField_email_examples_witness:
  "fst (validateField 1 (text_field ''email'' ''user@example.com'')
          (contact_page ''Al'' ''user@example.com'' ''short''))
   \<and> \<not> fst (validateField 1 (text_field ''email'' ''user@'') (contact_page ''Al'' ''user@'' ''short''))
   \<and> \<not> fst (validateField 1 (text_field ''email'' ''user example.com'')
          (contact_page ''Al'' ''user example.com'' ''short''))
   \<and> \<not> fst (validateField 1 (text_field ''email'' '''') (contact_page ''Al'' '''' ''short''))"
  using validateField_email_examples [of 1 "text_field ''email'' ''x''" "contact_page ''Al'' ''user@example.com'' ''short''"]
    validateField_email_examples [of 1 "text_field ''email'' ''x''" "contact_page ''Al'' ''user@'' ''short''"]
    validateField_email_examples [of 1 "text_field ''email'' ''x''" "contact_page ''Al'' ''user example.com'' ''short''"]
    validateField_email_examples [of 1 "text_field ''email'' ''x''" "contact_page ''Al'' '''' ''short''"]
  by (simp add: text_field_def)



section \<open>Text size\<close>

lemma root_classes_setTextSize:
  "root_classes (final_state (setTextSize sz s)) =
     (let cs = class_remove (js ''text-extra-large'')
                 (class_remove (js ''text-large'') (root_classes s))
      in if sz \<noteq> js ''normal'' \<and> valid_token (js ''text-'' @ sz)
         then class_add (js ''text-'' @ sz) cs else cs)"
  by (simp add: setTextSize_def Let_def setItem_def announceToScreenReader_def setTimeout_def)

lemma js_text_large: "js ''text-'' @ sz = js ''text-large'' \<longleftrightarrow> sz = js ''large''"
  by (simp add: js_def)

lemma js_text_extra_large: "js ''text-'' @ sz = js ''text-extra-large'' \<longleftrightarrow> sz = js ''extra-large''"
  by (simp add: js_def)

lemma valid_large:
  "valid_token (js ''text-'' @ js ''large'')" "valid_token (js ''text-'' @ js ''extra-large'')"
  by (simp_all add: valid_token_def js_def ascii_space_def)

lemma size_classes_setTextSize:
  "size_classes (final_state (setTextSize sz s)) =
     (if sz = js ''large'' then [js ''text-large'']
      else if sz = js ''extra-large'' then [js ''text-extra-large''] else [])"
proof -
  let ?P = "\<lambda>c. c = js ''text-large'' \<or> c = js ''text-extra-large''"
  let ?cs = "class_remove (js ''text-extra-large'') (class_remove (js ''text-large'') (root_classes s))"
  have cleared: "filter ?P ?cs = []"
    by (auto simp: class_remove_def filter_empty_conv)
  have notin: "js ''text-large'' \<notin> set ?cs" "js ''text-extra-large'' \<notin> set ?cs"
    by (auto simp: class_remove_def)
  have ne: "js ''large'' \<noteq> js ''normal''" "js ''extra-large'' \<noteq> js ''normal''"
      "js ''large'' \<noteq> js ''extra-large''" "js ''text-large'' \<noteq> js ''text-extra-large''"
    by (simp_all add: js_def)
  have added: "filter ?P (class_add t ?cs) = (if ?P t then [t] else [])" for t
    using cleared notin by (auto simp: class_add_def)
  show ?thesis
    unfolding size_classes_def root_classes_setTextSize Let_def
    using cleared ne valid_large
    by (auto simp: added js_text_large js_text_extra_large)
qed

text \<open>
  C4: after any sequence of setTextSize calls, the text-size classes on the document
  root are exactly the one of the last size set (text-large for large, text-extra-large
  for extra-large), and none when the last size was normal or anything else; so at most
  one is present.
\<close>

theorem one_size_class_after_calls:
  "size_classes (setTextSize_calls (sizes @ [sz]) s) =
     (if sz = js ''large'' then [js ''text-large'']
      else if sz = js ''extra-large'' then [js ''text-extra-large''] else [])"
  by (simp add: setTextSize_calls_def size_classes_setTextSize)

theorem one_size_class_after_calls_witness:
  "size_classes (setTextSize_calls [js ''large'', js ''extra-large'', js ''normal'', js ''large''] empty_page)
     = [js ''text-large'']
   \<and> size_classes (setTextSize_calls [js ''large'', js ''extra-large'']
        (empty_page\<lparr>root_classes := [js ''text-large'', js ''high-contrast'']\<rparr>)) = [js ''text-extra-large'']
   \<and> size_classes (setTextSize_calls [js ''extra-large'', js ''normal''] empty_page) = []"
  using one_size_class_after_calls [of "[js ''large'', js ''extra-large'', js ''normal'']" "js ''large''" empty_page]
    one_size_class_after_calls [of "[js ''large'']" "js ''extra-large''"
      "empty_page\<lparr>root_classes := [js ''text-large'', js ''high-contrast'']\<rparr>"]
    one_size_class_after_calls [of "[js ''extra-large'']" "js ''normal''" empty_page]
  by (simp add: js_def)

section \<open>The submit gate\<close>

lemma js_field_ids:
  "js ''name'' \<noteq> js ''email''" "js ''name'' \<noteq> js ''message''" "js ''email'' \<noteq> js ''message''"
  "js ''email'' \<noteq> js ''name''" "js ''message'' \<noteq> js ''name''" "js ''message'' \<noteq> js ''email''"
  by (simp_all add: js_def)

lemma submit_disabled:
  "submitBtn s = Some b \<Longrightarrow>
   map_option disabled (submitBtn (updateSubmitButtonState s))
     = Some (\<not> foldl (gate_step s) True requiredFields)"
  by (simp add: updateSubmitButtonState_def Let_def)

text \<open>
  C2: when the submit button and the three required fields exist, the recompute leaves
  the button enabled exactly when the trimmed name has at least 2 code units, the trimmed
  email has at least 2 and matches the email pattern, and the trimmed message has at
  least 10; otherwise it is disabled.
\<close>

theorem submit_gate_iff:
  assumes "submitBtn s = Some b"
    and "getElementById (js ''name'') s = Some (i1, f1)"
    and "getElementById (js ''email'') s = Some (i2, f2)"
    and "getElementById (js ''message'') s = Some (i3, f3)"
  shows "map_option disabled (submitBtn (updateSubmitButtonState s)) =
           Some (\<not> (2 \<le> length (trim (f_value f1))
                    \<and> 2 \<le> length (trim (f_value f2)) \<and> test email_re (trim (f_value f2))
                    \<and> 10 \<le> length (trim (f_value f3))))"
  unfolding submit_disabled [OF assms(1)]
  using assms(2-4)
  by (auto simp: requiredFields_def gate_step_def Let_def js_field_ids)

lemma contact_page_lookup:
  "getElementById (js ''name'') (contact_page n e m) = Some (0, text_field ''name'' n)"
  "getElementById (js ''email'') (contact_page n e m) = Some (1, text_field ''email'' e)"
  "getElementById (js ''message'') (contact_page n e m) = Some (2, text_field ''message'' m)"
  by (simp_all add: getElementById_def contact_page_def text_field_def js_field_ids)

theorem submit_gate_iff_witness:
  "map_option disabled (submitBtn (updateSubmitButtonState
      (contact_page ''Alice'' ''alice@example.com'' ''Hello, this is long enough.''))) = Some False
   \<and> map_option disabled (submitBtn (updateSubmitButtonState
      (contact_page ''Al'' ''bad'' ''short''))) = Some True"
proof -
  have b: "submitBtn (contact_page n e m) =
      Some \<lparr>disabled = False, describedby = None, b_classes = [], b_text = js ''Send''\<rparr>" for n e m
    by (simp add: contact_page_def)
  show ?thesis
    using submit_gate_iff [OF b contact_page_lookup, of "''Alice''" "''alice@example.com''" "''Hello, this is long enough.''"]
      submit_gate_iff [OF b contact_page_lookup, of "''Al''" "''bad''" "''short''"]
    by (simp add: text_field_def trim_def is_space_def js_def test_def email_re_def not_space_at_def)
qed

text \<open>
  C10: a required field whose element is absent puts no constraint on the gate: the
  recompute gives what the fold over the other required fields gives, so the button can
  be enabled on the fields that are present alone.
\<close>

theorem absent_field_no_constraint:
  assumes "submitBtn s = Some b"
    and "fieldId \<in> set requiredFields"
    and "getElementById fieldId s = None"
  shows "map_option disabled (submitBtn (updateSubmitButtonState s)) =
           Some (\<not> foldl (gate_step s) True (removeAll fieldId requiredFields))"
  unfolding submit_disabled [OF assms(1)]
  using assms(2,3)
  by (auto simp: requiredFields_def gate_step_def js_field_ids Let_def split: option.splits)

theorem absent_field_no_constraint_witness:
  "getElementById (js ''email'') page_without_email = None
   \<and> map_option disabled (submitBtn (updateSubmitButtonState page_without_email)) = Some False"
proof -
  have b: "submitBtn page_without_email =
      Some \<lparr>disabled = False, describedby = None, b_classes = [], b_text = js ''Send''\<rparr>"
    by (simp add: page_without_email_def contact_page_def)
  have m: "js ''email'' \<in> set requiredFields"
    by (simp add: requiredFields_def)
  have n: "getElementById (js ''email'') page_without_email = None"
    by (simp add: getElementById_def page_without_email_def contact_page_def text_field_def js_field_ids)
  show ?thesis
    using n absent_field_no_constraint [OF b m n]
    by (simp add: requiredFields_def gate_step_def getElementById_def page_without_email_def
          contact_page_def text_field_def js_field_ids trim_def is_space_def js_def Let_def)
qed

section \<open>The panel\<close>

lemma panel_queue_record [simp]:
  "panel (queue_record a s) = panel s" "toggle (queue_record a s) = toggle s"
  by (simp_all add: queue_record_def)

lemma panel_announce [simp]:
  "panel (announceToScreenReader m s) = panel s" "toggle (announceToScreenReader m s) = toggle s"
  by (simp_all add: announceToScreenReader_def setTimeout_def)

lemma panel_setTimeout [simp]:
  "panel (setTimeout t n s) = panel s" "toggle (setTimeout t n s) = toggle s"
  by (simp_all add: setTimeout_def)

lemma js_true_false: "js ''true'' \<noteq> js ''false''" "js ''false'' \<noteq> js ''true''"
  by (simp_all add: js_def)

lemma openPanel_panel:
  assumes "wired s"
  shows "\<exists>p t. panel s = Some p \<and> toggle s = Some t
          \<and> panel (openPanel s) = Some (p\<lparr>p_classes := class_add (js ''open'') (p_classes p),
                                           p_aria_hidden := Some (js ''false'')\<rparr>)
          \<and> toggle (openPanel s) = Some (t\<lparr>aria_expanded := Some (js ''true'')\<rparr>)"
  using assms
  by (auto simp: wired_def openPanel_def Let_def split: option.splits)

lemma closePanel_panel:
  assumes "wired s"
  shows "\<exists>p t. panel s = Some p \<and> toggle s = Some t
          \<and> panel (closePanel s) = Some (p\<lparr>p_classes := class_remove (js ''open'') (p_classes p),
                                           p_aria_hidden := Some (js ''true'')\<rparr>)
          \<and> toggle (closePanel s) = Some (t\<lparr>aria_expanded := Some (js ''false'')\<rparr>)"
  using assms
  by (auto simp: wired_def closePanel_def Let_def split: option.splits)

text \<open>
  C5: after openPanel the open class is present, aria-hidden is "false" and
  aria-expanded is "true"; after closePanel none of the three holds. So after every
  transition the representations of the panel state agree. The manager holds the panel
  and the toggle (otherwise neither method does anything).
\<close>

theorem panel_representations_agree:
  assumes "wired s"
  shows "has_open_class (openPanel s) \<and> hidden_false (openPanel s) \<and> expanded_true (openPanel s)
       \<and> \<not> has_open_class (closePanel s) \<and> \<not> hidden_false (closePanel s)
       \<and> \<not> expanded_true (closePanel s)"
proof -
  from openPanel_panel [OF assms] closePanel_panel [OF assms]
  show ?thesis
    by (auto simp: has_open_class_def hidden_false_def expanded_true_def class_add_def
          class_remove_def js_true_false)
qed

lemma wired_openPanel: "wired s \<Longrightarrow> wired (openPanel s)"
  by (auto simp: wired_def openPanel_def Let_def queue_record_def announceToScreenReader_def
        setTimeout_def split: option.splits)

lemma wired_closePanel: "wired s \<Longrightarrow> wired (closePanel s)"
  by (auto simp: wired_def closePanel_def Let_def queue_record_def announceToScreenReader_def
        setTimeout_def split: option.splits)

lemma wired_setup:
  "panel s \<noteq> None \<Longrightarrow> toggle s \<noteq> None \<Longrightarrow> wired (final_state (setupAccessibilityPanel s))"
  by (auto simp: wired_def setupAccessibilityPanel_def setupPanelTabbing_def Let_def
        addEventListener_def setupPreferenceControls_def split: option.splits)

theorem panel_representations_agree_witness:
  "wired (final_state (setupAccessibilityPanel panel_page))
   \<and> has_open_class (openPanel (final_state (setupAccessibilityPanel panel_page)))
   \<and> hidden_false (openPanel (final_state (setupAccessibilityPanel panel_page)))
   \<and> expanded_true (openPanel (final_state (setupAccessibilityPanel panel_page)))
   \<and> \<not> has_open_class (closePanel (openPanel (final_state (setupAccessibilityPanel panel_page))))
   \<and> \<not> hidden_false (closePanel (openPanel (final_state (setupAccessibilityPanel panel_page))))
   \<and> \<not> expanded_true (closePanel (openPanel (final_state (setupAccessibilityPanel panel_page))))"
proof -
  let ?s = "final_state (setupAccessibilityPanel panel_page)"
  have w: "wired ?s"
    by (rule wired_setup) (simp_all add: panel_page_def empty_page_def)
  have w2: "wired (openPanel ?s)"
    by (rule wired_openPanel [OF w])
  show ?thesis
    using w panel_representations_agree [OF w] panel_representations_agree [OF w2]
    by simp
qed

lemma in_querySelectorAll:
  "i \<in> set (querySelectorAll P xs) \<longleftrightarrow> i < length xs \<and> P (xs ! i)"
  by (force simp: querySelectorAll_def in_set_enumerate_eq)

lemma set_tabindex_selected:
  "set_tabindex v (querySelectorAll P cs) cs = map (\<lambda>c. if P c then c\<lparr>tabindex := Some v\<rparr> else c) cs"
  by (rule nth_equalityI) (simp_all add: set_tabindex_def nth_enumerate_eq in_querySelectorAll)

lemma querySelectorAll_map:
  assumes "\<And>x. P (f x) = P x"
  shows "querySelectorAll P (map f xs) = querySelectorAll P xs"
proof -
  have "map fst (filter (\<lambda>(i, x). P x) (enumerate n (map f xs)))
      = map fst (filter (\<lambda>(i, x). P x) (enumerate n xs))" for n
    by (induction xs arbitrary: n) (simp_all add: assms)
  then show ?thesis by (simp add: querySelectorAll_def)
qed

lemma tab_selector_tabindex [simp]: "tab_selector (c\<lparr>tabindex := v\<rparr>) = tab_selector c"
  by (simp add: tab_selector_def)

lemma querySelectorAll_set_tabindex:
  "querySelectorAll tab_selector (set_tabindex v (querySelectorAll tab_selector cs) cs)
     = querySelectorAll tab_selector cs"
  unfolding set_tabindex_selected by (rule querySelectorAll_map) simp

lemma filter_set_tabindex:
  "map tabindex (filter tab_selector (set_tabindex v (querySelectorAll tab_selector cs) cs))
     = map (\<lambda>c. Some v) (filter tab_selector cs)"
  unfolding set_tabindex_selected by (induction cs) simp_all

text \<open>What the callback keeps, and what it does on an aria-hidden record.\<close>

lemma observer_callback_keeps:
  assumes "observing s"
  shows "observing (observer_callback s a)"
    and "map_option p_aria_hidden (panel (observer_callback s a)) = map_option p_aria_hidden (panel s)"
    and "length (panel_tabindexes (observer_callback s a)) = length (panel_tabindexes s)"
  using assms
  by (auto simp: observing_def wired_def observer_callback_def Let_def querySelectorAll_set_tabindex
        panel_tabindexes_def filter_set_tabindex)

lemma foldl_observer_callback_keeps:
  assumes "observing s"
  shows "observing (foldl observer_callback s rs)
       \<and> map_option p_aria_hidden (panel (foldl observer_callback s rs)) = map_option p_aria_hidden (panel s)
       \<and> length (panel_tabindexes (foldl observer_callback s rs)) = length (panel_tabindexes s)"
  using assms
proof (induction rs arbitrary: s)
  case Nil
  then show ?case by simp
next
  case (Cons r rs)
  from Cons.prems have "observing (observer_callback s r)"
    by (rule observer_callback_keeps)
  from Cons.IH [OF this] observer_callback_keeps(2,3) [OF Cons.prems, of r]
  show ?case by simp
qed

lemma observer_callback_aria_hidden:
  assumes "observing s"
  shows "panel_tabindexes (observer_callback s (js ''aria-hidden'')) =
           replicate (length (panel_tabindexes s))
             (Some (if map_option p_aria_hidden (panel s) = Some (Some (js ''true''))
                    then js ''-1'' else js ''0''))"
  using assms
  by (auto simp: observing_def observer_callback_def panel_tabindexes_def Let_def filter_set_tabindex
        map_replicate_const)

lemma panel_tabindexes_records [simp]:
  "panel_tabindexes (s\<lparr>mutation_records := rs\<rparr>) = panel_tabindexes s"
  by (simp add: panel_tabindexes_def)

lemma deliver_last_aria_hidden:
  assumes "observing s" and "mutation_records s = rs @ [js ''aria-hidden'']"
  shows "panel_tabindexes (deliver_mutations s) =
           replicate (length (panel_tabindexes s))
             (Some (if map_option p_aria_hidden (panel s) = Some (Some (js ''true''))
                    then js ''-1'' else js ''0''))"
proof -
  let ?s1 = "foldl observer_callback s rs"
  from foldl_observer_callback_keeps [OF assms(1), of rs]
  have k: "observing ?s1" "map_option p_aria_hidden (panel ?s1) = map_option p_aria_hidden (panel s)"
    "length (panel_tabindexes ?s1) = length (panel_tabindexes s)"
    by simp_all
  have "panel_tabindexes (deliver_mutations s) = panel_tabindexes (observer_callback ?s1 (js ''aria-hidden''))"
    by (simp add: deliver_mutations_def assms(2))
  with observer_callback_aria_hidden [OF k(1)] k(2,3) show ?thesis by simp
qed

lemma openPanel_observing:
  assumes "observing s"
  shows "observing (openPanel s)"
    and "\<exists>rs. mutation_records (openPanel s) = rs @ [js ''aria-hidden'']"
    and "panel_tabindexes (openPanel s) = panel_tabindexes s"
    and "map_option p_aria_hidden (panel (openPanel s)) = Some (Some (js ''false''))"
  using assms
  by (auto simp: observing_def wired_def openPanel_def Let_def queue_record_def
        announceToScreenReader_def setTimeout_def panel_tabindexes_def split: option.splits)

lemma closePanel_observing:
  assumes "observing s"
  shows "observing (closePanel s)"
    and "\<exists>rs. mutation_records (closePanel s) = rs @ [js ''aria-hidden'']"
    and "panel_tabindexes (closePanel s) = panel_tabindexes s"
    and "map_option p_aria_hidden (panel (closePanel s)) = Some (Some (js ''true''))"
  using assms
  by (auto simp: observing_def wired_def closePanel_def Let_def queue_record_def
        announceToScreenReader_def setTimeout_def panel_tabindexes_def split: option.splits)

text \<open>
  C6, amended: openPanel and closePanel leave the tabindex of the captured controls as
  it was; once the observer has been handed the queued records, every captured control
  has tabindex 0 after openPanel and -1 after closePanel.
\<close>

theorem tabindex_after_delivery:
  assumes "observing s"
  shows "panel_tabindexes (openPanel s) = panel_tabindexes s
       \<and> panel_tabindexes (closePanel s) = panel_tabindexes s
       \<and> panel_tabindexes (deliver_mutations (openPanel s))
           = replicate (length (panel_tabindexes s)) (Some (js ''0''))
       \<and> panel_tabindexes (deliver_mutations (closePanel s))
           = replicate (length (panel_tabindexes s)) (Some (js ''-1''))"
proof -
  from openPanel_observing [OF assms] obtain rs where
    o: "observing (openPanel s)" "mutation_records (openPanel s) = rs @ [js ''aria-hidden'']"
       "panel_tabindexes (openPanel s) = panel_tabindexes s"
       "map_option p_aria_hidden (panel (openPanel s)) = Some (Some (js ''false''))"
    by blast
  from closePanel_observing [OF assms] obtain rs' where
    c: "observing (closePanel s)" "mutation_records (closePanel s) = rs' @ [js ''aria-hidden'']"
       "panel_tabindexes (closePanel s) = panel_tabindexes s"
       "map_option p_aria_hidden (panel (closePanel s)) = Some (Some (js ''true''))"
    by blast
  show ?thesis
    using deliver_last_aria_hidden [OF o(1,2)] deliver_last_aria_hidden [OF c(1,2)] o(3,4) c(3,4)
    by (simp add: js_true_false)
qed

lemma setup_observing:
  assumes "panel s \<noteq> None" and "toggle s \<noteq> None"
  shows "observing (final_state (setupAccessibilityPanel s))"
  using assms
  by (auto simp: observing_def wired_def setupAccessibilityPanel_def setupPanelTabbing_def Let_def
        addEventListener_def setupPreferenceControls_def querySelectorAll_set_tabindex
        split: option.splits)

lemma panel_ready_observing: "observing panel_ready"
  unfolding panel_ready_def by (rule setup_observing) (simp_all add: panel_page_def empty_page_def)

lemma panel_ready_tabindexes: "panel_tabindexes panel_ready = [Some (js ''-1''), Some (js ''-1'')]"
  by (simp add: panel_ready_def panel_page_def empty_page_def setupAccessibilityPanel_def
        setupPanelTabbing_def Let_def addEventListener_def setupPreferenceControls_def
        panel_tabindexes_def set_tabindex_selected tab_selector_def)

theorem tabindex_after_delivery_witness:
  "observing panel_ready
   \<and> panel_tabindexes (deliver_mutations (openPanel panel_ready)) = [Some (js ''0''), Some (js ''0'')]
   \<and> panel_tabindexes (deliver_mutations (closePanel panel_ready)) = [Some (js ''-1''), Some (js ''-1'')]"
  using panel_ready_observing tabindex_after_delivery [OF panel_ready_observing]
  by (simp add: panel_ready_tabindexes numeral_2_eq_2)

text \<open>
  C6 as stated fails: right after a call of openPanel on the page that setup left closed,
  the panel is open and its controls still have tabindex -1.
\<close>

theorem tabindex_lags_counterexample:
  "has_open_class (openPanel panel_ready)
   \<and> panel_tabindexes (openPanel panel_ready) = [Some (js ''-1''), Some (js ''-1'')]"
proof -
  have "wired panel_ready"
    using panel_ready_observing by (simp add: observing_def)
  then have "has_open_class (openPanel panel_ready)"
    using openPanel_panel [of panel_ready]
    by (auto simp: has_open_class_def class_add_def)
  moreover have "panel_tabindexes (openPanel panel_ready) = panel_tabindexes panel_ready"
    using openPanel_observing(3) [OF panel_ready_observing] .
  ultimately show ?thesis by (simp add: panel_ready_tabindexes)
qed

section \<open>Submission and field events\<close>

lemma first_index_SomeD:
  "first_index P xs = Some i \<Longrightarrow> i < length xs \<and> P (xs ! i)"
proof (induction xs arbitrary: i)
  case Nil
  then show ?case by simp
next
  case (Cons x xs)
  then show ?case by (auto split: if_splits)
qed

lemma first_index_None_iff: "first_index P xs = None \<longleftrightarrow> (\<forall>x\<in>set xs. \<not> P x)"
  by (induction xs) auto

lemma first_index_cong_map:
  "map P xs = map Q ys \<Longrightarrow> first_index P xs = first_index Q ys"
proof (induction xs arbitrary: ys)
  case Nil
  then show ?case by simp
next
  case (Cons x xs)
  then obtain y ys' where "ys = y # ys'" by (cases ys) auto
  with Cons show ?case by auto
qed

lemma getElementById_SomeD:
  "getElementById fid s = Some (i, f) \<Longrightarrow> i < length (inputs s) \<and> inputs s ! i = f \<and> f_id f = fid"
  by (auto simp: getElementById_def split: option.splits dest: first_index_SomeD)

lemma js_nonempty: "js (c # cs) \<noteq> []"
  by (simp add: js_def)

lemma field_rule_msg: "snd (field_rule n v) = [] \<longleftrightarrow> fst (field_rule n v)"
  by (simp add: field_rule_def js_nonempty)

lemma validateField_fst: "fst (validateField i f s) = fst (field_rule (f_name f) (trim (f_value f)))"
  by (simp add: validateField_def Let_def split_beta)

lemma validateField_inputs:
  "inputs (snd (validateField i f s)) =
     (inputs s)[i := f\<lparr>f_aria_invalid := Some (bool_str (\<not> fst (validateField i f s)))\<rparr>]"
  by (simp add: validateField_def Let_def split_beta displayFieldError_def setTimeout_def
        field_rule_msg split: option.splits)

lemma validateField_rest:
  "submitBtn (snd (validateField i f s)) = submitBtn s"
  "pending_send (snd (validateField i f s)) = pending_send s"
  "announcements (snd (validateField i f s)) = announcements s"
  "focused (snd (validateField i f s)) = focused s"
  "timers (snd (validateField i f s)) = timers s @ [(0, UpdateSubmitButtonState)]"
  by (simp_all add: validateField_def Let_def split_beta displayFieldError_def setTimeout_def
        split: option.splits)

lemma validated_from_refl: "validated_from s s"
  by (simp add: validated_from_def)

lemma map_list_update_same:
  "i < length xs \<Longrightarrow> h g = h (xs ! i) \<Longrightarrow> map h (xs[i := g]) = map h xs"
  by (simp add: map_update list_update_same_conv)

lemma validated_from_lookup:
  assumes "validated_from s s1"
  shows "getElementById fid s1 = map_option (\<lambda>(i, f). (i, inputs s1 ! i)) (getElementById fid s)"
proof -
  have "map (\<lambda>f. f_id f = fid) (inputs s1) = map (\<lambda>f. f_id f = fid) (inputs s)"
  proof -
    have "map (\<lambda>f. f_id f = fid) xs = map (\<lambda>i. i = fid) (map f_id xs)" for xs :: "field list"
      by simp
    with assms show ?thesis unfolding validated_from_def by metis
  qed
  then have "first_index (\<lambda>f. f_id f = fid) (inputs s1) = first_index (\<lambda>f. f_id f = fid) (inputs s)"
    by (rule first_index_cong_map)
  then show ?thesis
    by (simp add: getElementById_def split: option.splits)
qed

lemma validate_step_keeps:
  assumes "validated_from s s1"
  shows "validated_from s (snd (validate_step (ok, s1) fid))"
proof (cases "getElementById fid s1")
  case None
  with assms show ?thesis by (simp add: validate_step_def)
next
  case (Some a)
  obtain i f where a: "a = (i, f)" by (cases a)
  from Some a getElementById_SomeD have i: "i < length (inputs s1)" "inputs s1 ! i = f"
    by blast+
  have "snd (validate_step (ok, s1) fid) = snd (validateField i f s1)"
    using Some a by (simp add: validate_step_def split_beta)
  moreover have "validated_from s (snd (validateField i f s1))"
    using assms i
    by (simp add: validated_from_def validateField_inputs validateField_rest map_list_update_same
          is_send_def)
  ultimately show ?thesis by simp
qed

lemma validated_from_nth:
  assumes "validated_from s s1" and "i < length (inputs s)"
  shows "f_name (inputs s1 ! i) = f_name (inputs s ! i)"
    and "f_value (inputs s1 ! i) = f_value (inputs s ! i)"
    and "f_in_form (inputs s1 ! i) = f_in_form (inputs s ! i)"
    and "i < length (inputs s1)"
proof -
  from assms(1) have l: "length (inputs s1) = length (inputs s)"
    unfolding validated_from_def by (metis length_map)
  show "i < length (inputs s1)" using l assms(2) by simp
  from assms(1) have "map f_name (inputs s1) ! i = map f_name (inputs s) ! i"
    "map f_value (inputs s1) ! i = map f_value (inputs s) ! i"
    "map f_in_form (inputs s1) ! i = map f_in_form (inputs s) ! i"
    unfolding validated_from_def by simp_all
  then show "f_name (inputs s1 ! i) = f_name (inputs s ! i)"
    and "f_value (inputs s1 ! i) = f_value (inputs s ! i)"
    and "f_in_form (inputs s1 ! i) = f_in_form (inputs s ! i)"
    using l assms(2) by simp_all
qed

lemma validated_from_passes:
  assumes "validated_from s s1"
  shows "passes s1 fid = passes s fid"
proof (cases "getElementById fid s")
  case None
  with validated_from_lookup [OF assms, of fid] show ?thesis by (simp add: passes_def)
next
  case (Some a)
  obtain i f where a: "a = (i, f)" by (cases a)
  from Some a getElementById_SomeD have i: "i < length (inputs s)" "inputs s ! i = f"
    by blast+
  from validated_from_lookup [OF assms, of fid] Some a
  have l1: "getElementById fid s1 = Some (i, inputs s1 ! i)" by simp
  show ?thesis
    using Some a l1 i validated_from_nth(1,2) [OF assms i(1)]
    by (simp add: passes_def validateField_fst)
qed

lemma validate_step_fst:
  "fst (validate_step (ok, s1) fid) = (ok \<and> passes s1 fid)"
  by (auto simp: validate_step_def passes_def split_beta split: option.splits)

lemma foldl_validate_step:
  assumes "validated_from s s1"
  shows "validated_from s (snd (foldl validate_step (ok, s1) fids))
       \<and> fst (foldl validate_step (ok, s1) fids) = (ok \<and> (\<forall>fid\<in>set fids. passes s fid))"
  using assms
proof (induction fids arbitrary: ok s1)
  case Nil
  then show ?case by simp
next
  case (Cons fid fids)
  let ?a = "validate_step (ok, s1) fid"
  have k: "validated_from s (snd ?a)"
    by (rule validate_step_keeps [OF Cons.prems])
  have "foldl validate_step (ok, s1) (fid # fids) = foldl validate_step (fst ?a, snd ?a) fids"
    by simp
  with Cons.IH [OF k, of "fst ?a"] validate_step_fst [of ok s1 fid]
    validated_from_passes [OF Cons.prems, of fid]
  show ?case by auto
qed

lemma validate_step_inputs:
  assumes "validated_from s s1" and "getElementById fid s = Some (j, g)"
  shows "inputs (snd (validate_step (ok, s1) fid)) =
           (inputs s1)[j := (inputs s1 ! j)\<lparr>f_aria_invalid := Some (bool_str (\<not> passes s fid))\<rparr>]"
proof -
  from validated_from_lookup [OF assms(1), of fid] assms(2)
  have l1: "getElementById fid s1 = Some (j, inputs s1 ! j)" by simp
  then have "passes s1 fid = fst (validateField j (inputs s1 ! j) s1)"
    by (simp add: passes_def)
  with l1 validated_from_passes [OF assms(1), of fid] show ?thesis
    by (simp add: validate_step_def split_beta validateField_inputs)
qed

lemma validate_step_marks:
  assumes "validated_from s s1" and "getElementById fid s = Some (i, f)"
  shows "f_aria_invalid (inputs (snd (validate_step (ok, s1) fid)) ! i) = Some (bool_str (\<not> passes s fid))"
proof -
  from getElementById_SomeD [OF assms(2)] have "i < length (inputs s)" by simp
  from validated_from_nth(4) [OF assms(1) this] show ?thesis
    by (simp add: validate_step_inputs [OF assms])
qed

lemma validate_step_keeps_mark:
  assumes "validated_from s s1" and "getElementById fid s = Some (i, f)" and "fid' \<noteq> fid"
  shows "inputs (snd (validate_step (ok, s1) fid')) ! i = inputs s1 ! i"
proof (cases "getElementById fid' s")
  case None
  with validated_from_lookup [OF assms(1), of fid'] show ?thesis
    by (simp add: validate_step_def)
next
  case (Some a)
  obtain j g where a: "a = (j, g)" by (cases a)
  from getElementById_SomeD [OF assms(2)] getElementById_SomeD [of fid' s j g] Some a assms(3)
  have "i \<noteq> j" by auto
  with validate_step_inputs [OF assms(1), of fid' j g ok] Some a show ?thesis by simp
qed

lemma foldl_keeps_mark:
  assumes "validated_from s s1" and "getElementById fid s = Some (i, f)" and "fid \<notin> set fids"
  shows "inputs (snd (foldl validate_step (ok, s1) fids)) ! i = inputs s1 ! i"
  using assms(1,3)
proof (induction fids arbitrary: ok s1)
  case Nil
  then show ?case by simp
next
  case (Cons fid' fids)
  let ?a = "validate_step (ok, s1) fid'"
  have k: "validated_from s (snd ?a)"
    by (rule validate_step_keeps [OF Cons.prems(1)])
  from Cons.prems(2) have ne: "fid' \<noteq> fid" "fid \<notin> set fids" by auto
  have "foldl validate_step (ok, s1) (fid' # fids) = foldl validate_step (fst ?a, snd ?a) fids"
    by simp
  with Cons.IH [OF k ne(2), of "fst ?a"] validate_step_keeps_mark [OF Cons.prems(1) assms(2) ne(1), of ok]
  show ?case by simp
qed

lemma foldl_marks:
  assumes "validated_from s s1" and "getElementById fid s = Some (i, f)"
    and "fid \<in> set fids" and "distinct fids"
  shows "f_aria_invalid (inputs (snd (foldl validate_step (ok, s1) fids)) ! i)
           = Some (bool_str (\<not> passes s fid))"
  using assms(1,3,4)
proof (induction fids arbitrary: ok s1)
  case Nil
  then show ?case by simp
next
  case (Cons fid' fids)
  let ?a = "validate_step (ok, s1) fid'"
  have k: "validated_from s (snd ?a)"
    by (rule validate_step_keeps [OF Cons.prems(1)])
  have unf: "foldl validate_step (ok, s1) (fid' # fids) = foldl validate_step (fst ?a, snd ?a) fids"
    by simp
  show ?case
  proof (cases "fid' = fid")
    case True
    with Cons.prems(3) have "fid \<notin> set fids" by simp
    from foldl_keeps_mark [OF k assms(2) this, of "fst ?a"] validate_step_marks [OF Cons.prems(1) assms(2), of ok] True
    show ?thesis unfolding unf by simp
  next
    case False
    with Cons.prems(2,3) have "fid \<in> set fids" "distinct fids" by auto
    from Cons.IH [OF k this, of "fst ?a"] show ?thesis unfolding unf .
  qed
qed

lemma distinct_requiredFields: "distinct requiredFields"
  by (simp add: requiredFields_def js_def)

lemma firstErrorField_inputs:
  "inputs s' = inputs s \<Longrightarrow> firstErrorField s' = firstErrorField s"
  by (simp add: firstErrorField_def)

lemma validateAndSubmitForm_invalid:
  assumes "\<not> fst (foldl validate_step (True, s) requiredFields)"
  shows "validateAndSubmitForm b s =
           (let s1 = snd (foldl validate_step (True, s) requiredFields);
                s2 = announceToScreenReader (js ''Please correct the errors in the form'') s1
            in case firstErrorField s1 of
                 Some j \<Rightarrow> s2\<lparr>focused := Some (FieldNode j)\<rparr>
               | None \<Rightarrow> s2)"
proof -
  have "firstErrorField (announceToScreenReader m s1) = firstErrorField s1" for m s1
    by (rule firstErrorField_inputs) (simp add: announceToScreenReader_def setTimeout_def)
  with assms show ?thesis
    by (simp add: validateAndSubmitForm_def split_beta Let_def)
qed

lemma valid_submission_starts_send:
  assumes "fst (foldl validate_step (True, s) requiredFields)"
  shows "pending_send (validateAndSubmitForm b s) = Some (b_text b)"
    and "submitBtn (validateAndSubmitForm b s) =
           Some (b\<lparr>b_classes := class_add (js ''loading'') (b_classes b), disabled := True,
                   b_text := js ''Sending...''\<rparr>)"
    and "last (timers (validateAndSubmitForm b s)) = (2000, ResolveSend)"
  using assms
  by (simp_all add: validateAndSubmitForm_def split_beta Let_def setTimeout_def)

text \<open>
  C7: when some required field that exists fails validateField, validateAndSubmitForm
  announces the correction request, focuses the first element of the form marked
  aria-invalid="true" (there is one when the failing field is inside the form), and
  returns with the submit button untouched (no loading class, not disabled by the
  submission), no send pending and no send timer started.
\<close>

theorem invalid_submission_aborts:
  assumes "fieldId \<in> set requiredFields"
    and "getElementById fieldId s = Some (i, f)"
    and "\<not> fst (validateField i f s)"
  shows "announcements (validateAndSubmitForm b s)
           = announcements s @ [js ''Please correct the errors in the form'']
       \<and> (case firstErrorField (validateAndSubmitForm b s) of
             Some j \<Rightarrow> focused (validateAndSubmitForm b s) = Some (FieldNode j)
           | None \<Rightarrow> focused (validateAndSubmitForm b s) = focused s)
       \<and> (f_in_form f \<longrightarrow> firstErrorField (validateAndSubmitForm b s) \<noteq> None)
       \<and> submitBtn (validateAndSubmitForm b s) = submitBtn s
       \<and> pending_send (validateAndSubmitForm b s) = pending_send s
       \<and> filter is_send (timers (validateAndSubmitForm b s)) = filter is_send (timers s)"
proof -
  let ?r = "foldl validate_step (True, s) requiredFields"
  let ?s1 = "snd ?r"
  let ?v = "validateAndSubmitForm b s"
  from foldl_validate_step [OF validated_from_refl, of s True requiredFields]
  have vf: "validated_from s ?s1" and ok: "fst ?r = (\<forall>fid\<in>set requiredFields. passes s fid)"
    by simp_all
  have np: "\<not> passes s fieldId"
    using assms(2,3) by (simp add: passes_def)
  with ok assms(1) have bad: "\<not> fst ?r" by blast
  note v = validateAndSubmitForm_invalid [OF bad, of b]
  have inp: "inputs ?v = inputs ?s1"
    unfolding v by (simp add: Let_def announceToScreenReader_def setTimeout_def split: option.splits)
  then have fe: "firstErrorField ?v = firstErrorField ?s1"
    by (rule firstErrorField_inputs)
  from vf have same: "submitBtn ?s1 = submitBtn s" "pending_send ?s1 = pending_send s"
    "announcements ?s1 = announcements s" "focused ?s1 = focused s"
    "filter is_send (timers ?s1) = filter is_send (timers s)"
    by (simp_all add: validated_from_def)
  have a: "announcements ?v = announcements s @ [js ''Please correct the errors in the form'']"
    unfolding v using same(3)
    by (simp add: Let_def announceToScreenReader_def setTimeout_def split: option.splits)
  have fo: "case firstErrorField ?v of Some j \<Rightarrow> focused ?v = Some (FieldNode j)
            | None \<Rightarrow> focused ?v = focused s"
    unfolding fe unfolding v using same(4)
    by (simp add: Let_def announceToScreenReader_def setTimeout_def split: option.splits)
  have rest: "submitBtn ?v = submitBtn s" "pending_send ?v = pending_send s"
    "filter is_send (timers ?v) = filter is_send (timers s)"
    unfolding v using same(1,2,5)
    by (simp_all add: Let_def announceToScreenReader_def setTimeout_def is_send_def split: option.splits)
  have mark: "f_in_form f \<longrightarrow> firstErrorField ?v \<noteq> None"
  proof
    assume inform: "f_in_form f"
    from getElementById_SomeD [OF assms(2)] have i: "i < length (inputs s)" "inputs s ! i = f"
      by simp_all
    from foldl_marks [OF validated_from_refl assms(2,1) distinct_requiredFields, of True] np
    have m: "f_aria_invalid (inputs ?s1 ! i) = Some (js ''true'')"
      by (simp add: bool_str_def)
    from validated_from_nth(3,4) [OF vf i(1)] i(2) inform
    have "f_in_form (inputs ?s1 ! i)" "i < length (inputs ?s1)" by simp_all
    with m have "\<exists>x\<in>set (inputs ?s1). f_in_form x \<and> f_aria_invalid x = Some (js ''true'')"
      using nth_mem by blast
    then show "firstErrorField ?v \<noteq> None"
      unfolding fe by (simp add: firstErrorField_def first_index_None_iff)
  qed
  from a fo mark rest show ?thesis by simp
qed

theorem invalid_submission_aborts_witness:
  "js ''name'' \<in> set requiredFields
   \<and> getElementById (js ''name'') (contact_page ''A'' ''bad'' ''short'') = Some (0, text_field ''name'' ''A'')
   \<and> \<not> fst (validateField 0 (text_field ''name'' ''A'') (contact_page ''A'' ''bad'' ''short''))
   \<and> focused (on_submit (contact_page ''A'' ''bad'' ''short'')) = Some (FieldNode 0)
   \<and> map_option disabled (submitBtn (on_submit (contact_page ''A'' ''bad'' ''short''))) = Some False
   \<and> pending_send (on_submit (contact_page ''A'' ''bad'' ''short'')) = None
   \<and> filter is_send (timers (on_submit (contact_page ''A'' ''bad'' ''short''))) = []"
proof -
  let ?s = "contact_page ''A'' ''bad'' ''short''"
  let ?b = "\<lparr>disabled = False, describedby = None, b_classes = [], b_text = js ''Send''\<rparr>"
  have m: "js ''name'' \<in> set requiredFields"
    by (simp add: requiredFields_def)
  have l: "getElementById (js ''name'') ?s = Some (0, text_field ''name'' ''A'')"
    by (rule contact_page_lookup)
  have n: "\<not> fst (validateField 0 (text_field ''name'' ''A'') ?s)"
    by (simp add: validateField_fst field_rule_def text_field_def trim_def is_space_def js_def)
  have sub: "on_submit ?s = validateAndSubmitForm ?b ?s"
    by (simp add: on_submit_def contact_page_def)
  have inf: "f_in_form (text_field ''name'' ''A'')"
    by (simp add: text_field_def)
  have st: "submitBtn ?s = Some ?b" "pending_send ?s = None" "timers ?s = []"
    by (simp_all add: contact_page_def empty_page_def)
  note t = invalid_submission_aborts [OF m l n, of ?b]
  have first: "firstErrorField (validateAndSubmitForm ?b ?s) = Some 0"
    by (simp add: validateAndSubmitForm_def requiredFields_def validate_step_def contact_page_lookup
          getElementById_def validateField_def displayFieldError_def field_rule_def setTimeout_def
          announceToScreenReader_def firstErrorField_def contact_page_def empty_page_def
          text_field_def trim_def is_space_def test_def email_re_def not_space_at_def bool_str_def
          js_def Let_def split_beta)
  show ?thesis
    using m l n t inf first by (simp add: sub st)
qed

lemma clearFieldError_validated:
  assumes "getElementById fid s = Some (i, f)"
  shows "validated_from s (clearFieldError i f s)"
  using getElementById_SomeD [OF assms]
  by (auto simp: validated_from_def clearFieldError_def Let_def map_list_update_same split: option.splits)

lemma validated_from_gate_step:
  assumes "validated_from s s1"
  shows "gate_step s1 a fid = gate_step s a fid"
proof (cases "getElementById fid s")
  case None
  with validated_from_lookup [OF assms, of fid] show ?thesis by (simp add: gate_step_def)
next
  case (Some p)
  obtain i f where p: "p = (i, f)" by (cases p)
  from Some p getElementById_SomeD have i: "i < length (inputs s)" "inputs s ! i = f"
    by blast+
  from validated_from_lookup [OF assms, of fid] Some p
  have "getElementById fid s1 = Some (i, inputs s1 ! i)" by simp
  with Some p i validated_from_nth(2) [OF assms i(1)] show ?thesis
    by (simp add: gate_step_def)
qed

lemma validated_from_gate:
  assumes "validated_from s s1"
  shows "foldl (gate_step s1) a fids = foldl (gate_step s) a fids"
  by (induction fids arbitrary: a) (simp_all add: validated_from_gate_step [OF assms])

lemma updateSubmitButtonState_keeps:
  "inputs (updateSubmitButtonState s) = inputs s"
  "error_els (updateSubmitButtonState s) = error_els s"
  by (simp_all add: updateSubmitButtonState_def Let_def split: option.splits)

lemma on_input_clears:
  assumes "getElementById fieldId s = Some (i, f)"
  shows "inputs (on_input fieldId s) ! i = f\<lparr>f_aria_invalid := Some (js ''false'')\<rparr>"
    and "error_els s (f_name f @ js ''Error'') = Some e \<Longrightarrow>
           error_els (on_input fieldId s) (f_name f @ js ''Error'') =
             Some (e\<lparr>e_text := [], e_visible := False\<rparr>)"
  using assms getElementById_SomeD [OF assms]
  by (simp_all add: on_input_def updateSubmitButtonState_keeps clearFieldError_def Let_def
        split: option.splits)

text \<open>
  C9, amended: on blur the field is validated against its current trimmed value: its
  aria-invalid flag and its error element show the outcome of the rule for the field's
  name. On input nothing is validated: the error element is emptied, aria-invalid is set
  to "false" whatever the value is, and the submit gate is recomputed from the current
  values.
\<close>

theorem blur_validates_input_clears:
  assumes "getElementById fieldId s = Some (i, f)"
  shows "inputs (on_blur fieldId s) ! i =
           f\<lparr>f_aria_invalid := Some (bool_str (\<not> fst (field_rule (f_name f) (trim (f_value f)))))\<rparr>
       \<and> (\<forall>e. error_els s (f_name f @ js ''Error'') = Some e \<longrightarrow>
             error_els (on_blur fieldId s) (f_name f @ js ''Error'') =
               Some (e\<lparr>e_text := snd (field_rule (f_name f) (trim (f_value f))),
                       e_visible := \<not> fst (field_rule (f_name f) (trim (f_value f)))\<rparr>))
       \<and> inputs (on_input fieldId s) ! i = f\<lparr>f_aria_invalid := Some (js ''false'')\<rparr>
       \<and> (\<forall>e. error_els s (f_name f @ js ''Error'') = Some e \<longrightarrow>
             error_els (on_input fieldId s) (f_name f @ js ''Error'') =
               Some (e\<lparr>e_text := [], e_visible := False\<rparr>))
       \<and> map_option disabled (submitBtn (on_input fieldId s)) =
           map_option (\<lambda>b. \<not> foldl (gate_step s) True requiredFields) (submitBtn s)"
proof -
  from getElementById_SomeD [OF assms] have i: "i < length (inputs s)" by simp
  have blur1: "inputs (on_blur fieldId s) ! i =
      f\<lparr>f_aria_invalid := Some (bool_str (\<not> fst (field_rule (f_name f) (trim (f_value f)))))\<rparr>"
    using assms i by (simp add: on_blur_def validateField_inputs validateField_fst)
  have blur2: "\<forall>e. error_els s (f_name f @ js ''Error'') = Some e \<longrightarrow>
      error_els (on_blur fieldId s) (f_name f @ js ''Error'') =
        Some (e\<lparr>e_text := snd (field_rule (f_name f) (trim (f_value f))),
                e_visible := \<not> fst (field_rule (f_name f) (trim (f_value f)))\<rparr>)"
    using assms
    by (simp add: on_blur_def validateField_def displayFieldError_def setTimeout_def Let_def
          split_beta field_rule_msg)
  have in1: "inputs (on_input fieldId s) ! i = f\<lparr>f_aria_invalid := Some (js ''false'')\<rparr>"
    by (rule on_input_clears(1) [OF assms])
  have in2: "\<forall>e. error_els s (f_name f @ js ''Error'') = Some e \<longrightarrow>
      error_els (on_input fieldId s) (f_name f @ js ''Error'') = Some (e\<lparr>e_text := [], e_visible := False\<rparr>)"
    using on_input_clears(2) [OF assms] by blast
  have btn: "submitBtn (clearFieldError i f s) = submitBtn s"
    by (simp add: clearFieldError_def Let_def split: option.splits)
  have in3: "map_option disabled (submitBtn (on_input fieldId s)) =
      map_option (\<lambda>b. \<not> foldl (gate_step s) True requiredFields) (submitBtn s)"
  proof (cases "submitBtn s")
    case None
    with assms btn show ?thesis by (simp add: on_input_def updateSubmitButtonState_def)
  next
    case (Some b)
    with btn have "submitBtn (clearFieldError i f s) = Some b" by simp
    from submit_disabled [OF this] validated_from_gate [OF clearFieldError_validated [OF assms]] Some assms
    show ?thesis by (simp add: on_input_def)
  qed
  from blur1 blur2 in1 in2 in3 show ?thesis by blast
qed

lemma js_nameError: "js ''name'' @ js ''Error'' = js ''nameError''"
  by (simp add: js_def)

lemma name_A_rule:
  "field_rule (js ''name'') (trim (js ''A'')) = (False, js ''Name must be at least 2 characters long'')"
  by (simp add: field_rule_def trim_def is_space_def js_def)

theorem blur_validates_input_clears_witness:
  "getElementById (js ''name'') (contact_page ''A'' ''bad'' ''short'') = Some (0, text_field ''name'' ''A'')
   \<and> f_aria_invalid (inputs (on_blur (js ''name'') (contact_page ''A'' ''bad'' ''short'')) ! 0)
       = Some (js ''true'')
   \<and> map_option e_text (error_els (on_blur (js ''name'') (contact_page ''A'' ''bad'' ''short''))
         (js ''nameError'')) = Some (js ''Name must be at least 2 characters long'')
   \<and> f_aria_invalid (inputs (on_input (js ''name'') (contact_page ''A'' ''bad'' ''short'')) ! 0)
       = Some (js ''false'')"
proof -
  let ?s = "contact_page ''A'' ''bad'' ''short''"
  have l: "getElementById (js ''name'') ?s = Some (0, text_field ''name'' ''A'')"
    by (rule contact_page_lookup)
  have e: "error_els ?s (js ''nameError'') = Some \<lparr>e_text = [], e_visible = False\<rparr>"
    by (simp add: contact_page_def js_def)
  have n: "f_name (text_field ''name'' ''A'') @ js ''Error'' = js ''nameError''"
    "f_name (text_field ''name'' ''A'') = js ''name''" "f_value (text_field ''name'' ''A'') = js ''A''"
    by (simp_all add: text_field_def js_def)
  from blur_validates_input_clears [OF l] e
  show ?thesis
    using l by (simp add: n name_A_rule bool_str_def js_nameError)
qed

text \<open>
  C9 as stated fails on input events: with the name field holding the single letter A,
  which the rule rejects, an input event leaves aria-invalid "false" and the error text
  empty.
\<close>

theorem input_clears_error_counterexample:
  "field_rule (js ''name'') (trim (js ''A'')) = (False, js ''Name must be at least 2 characters long'')
   \<and> f_value (inputs (on_input (js ''name'') (contact_page ''A'' ''bad'' ''short'')) ! 0) = js ''A''
   \<and> f_aria_invalid (inputs (on_input (js ''name'') (contact_page ''A'' ''bad'' ''short'')) ! 0)
       = Some (js ''false'')
   \<and> map_option e_text (error_els (on_input (js ''name'') (contact_page ''A'' ''bad'' ''short''))
         (js ''nameError'')) = Some []"
proof -
  let ?s = "contact_page ''A'' ''bad'' ''short''"
  have l: "getElementById (js ''name'') ?s = Some (0, text_field ''name'' ''A'')"
    by (rule contact_page_lookup)
  have n: "f_name (text_field ''name'' ''A'') @ js ''Error'' = js ''nameError''"
    by (simp add: text_field_def js_def)
  have e: "error_els ?s (f_name (text_field ''name'' ''A'') @ js ''Error'')
      = Some \<lparr>e_text = [], e_visible = False\<rparr>"
    unfolding n by (simp add: contact_page_def js_def)
  from on_input_clears(1) [OF l] on_input_clears(2) [OF l e]
  show ?thesis
    by (simp add: name_A_rule n text_field_def js_nameError)
qed

section \<open>Loading the preferences at startup\<close>



lemma final_state_then_do:
  assumes "\<And>s1. P (final_state (g s1))" and "P (final_state x)"
  shows "P (final_state (then_do x g))"
  using assms by (cases x) simp_all





lemma env_of_simple [simp]:
  "env_of (addEventListener t e s) = env_of s"
  "env_of (log_msg l m s) = env_of s"
  "env_of (setTimeout k n s) = env_of s"
  "env_of (announceToScreenReader a s) = env_of s"
  "env_of (updateSubmitButtonState s) = env_of s"
  "env_of (setupPreferenceControls s) = env_of s"
  "env_of (setupThemeToggle s) = env_of s"
  by (simp_all add: env_of_def addEventListener_def log_msg_def setTimeout_def
        announceToScreenReader_def updateSubmitButtonState_def setupPreferenceControls_def
        setupThemeToggle_def Let_def split: option.splits)

lemma setupAccessibilityPanel_returns:
  "\<exists>s1. setupAccessibilityPanel s = Normal s1 \<and> env_of s1 = env_of s"
proof (cases "panel s")
  case None
  then show ?thesis
    by (simp add: setupAccessibilityPanel_def Let_def) (simp add: env_of_def log_msg_def)
next
  case (Some p)
  then show ?thesis
    by (cases "toggle s")
      (simp_all add: setupAccessibilityPanel_def setupPanelTabbing_def Let_def addEventListener_def,
        simp_all add: env_of_def log_msg_def setupPreferenceControls_def addEventListener_def)
qed

lemma env_of_setupFormValidation: "env_of (setupFormValidation s) = env_of s"
proof -
  have "env_of (foldl (\<lambda>s1 fieldId.
                    if getElementById fieldId s1 \<noteq> None
                    then s1\<lparr>listeners := listeners s1 @ [(fieldId, js ''blur''), (fieldId, js ''input'')]\<rparr>
                    else s1) s0 fids) = env_of s0" for s0 fids
    by (induction fids arbitrary: s0) (simp_all add: env_of_def)
  then show ?thesis by (simp add: setupFormValidation_def)
qed

lemma env_of_setupKeyboardNavigation: "env_of (setupKeyboardNavigation s) = env_of s"
proof -
  have "env_of (foldl (\<lambda>s1 link. addEventListener ''.skip-link'' ''click'' s1) s0 ls) = env_of s0"
    for s0 and ls :: "nat list"
    by (induction ls arbitrary: s0) simp_all
  then show ?thesis by (simp add: setupKeyboardNavigation_def)
qed

lemma setupReducedMotion_returns:
  assumes "\<not> (prefers_reduced_motion s \<and> storage_write_throws s)"
  shows "\<exists>s1. setupReducedMotion s = Normal s1 \<and> storage_read_throws s1 = storage_read_throws s"
  using assms
  by (auto simp: setupReducedMotion_def setReducedMotion_def setItem_def addEventListener_def
        announceToScreenReader_def setTimeout_def)

lemma startup_reaches_load:
  assumes "\<not> (prefers_reduced_motion s \<and> storage_write_throws s)"
  shows "\<exists>s5. storage_read_throws s5 = storage_read_throws s \<and>
           initializeComponents m s =
             try_catch
               (then_do (loadUserPreferences m s5) (\<lambda>s6.
                  Normal (log_msg Log ''Accessibility Manager initialized successfully''
                            (s6\<lparr>isInitialized := True\<rparr>))))
               (\<lambda>error s1. Normal (log_msg Error ''Error initializing Accessibility Manager:'' s1))"
proof -
  from setupAccessibilityPanel_returns [of s] obtain s1 where
    s1: "setupAccessibilityPanel s = Normal s1" "env_of s1 = env_of s" by blast
  let ?s4 = "setupKeyboardNavigation (setupFormValidation (setupThemeToggle s1))"
  have e4: "env_of ?s4 = env_of s"
    by (simp add: env_of_setupKeyboardNavigation env_of_setupFormValidation s1(2))
  with assms have "\<not> (prefers_reduced_motion ?s4 \<and> storage_write_throws ?s4)"
    by (simp add: env_of_def)
  from setupReducedMotion_returns [OF this] obtain s5 where
    s5: "setupReducedMotion ?s4 = Normal s5" "storage_read_throws s5 = storage_read_throws ?s4"
    by blast
  from e4 s5(2) have "storage_read_throws s5 = storage_read_throws s"
    by (simp add: env_of_def)
  moreover have "initializeComponents m s =
      try_catch
        (then_do (loadUserPreferences m s5) (\<lambda>s6.
           Normal (log_msg Log ''Accessibility Manager initialized successfully''
                     (s6\<lparr>isInitialized := True\<rparr>))))
        (\<lambda>error s1. Normal (log_msg Error ''Error initializing Accessibility Manager:'' s1))"
    by (simp add: initializeComponents_def s1(1) s5(1))
  ultimately show ?thesis by blast
qed

lemma after_load_data_theme:
  "root_data_theme (final_state
     (try_catch
        (then_do x (\<lambda>s6. Normal (log_msg Log a (s6\<lparr>isInitialized := True\<rparr>))))
        (\<lambda>error s1. Normal (log_msg Error b s1))))
   = root_data_theme (final_state x)"
  by (cases x) (simp_all add: log_msg_def)




text \<open>
  With the two methods as the specification describes them and a storage that works,
  each preference with no stored entry ends at the system signal (theme, reduced motion)
  or at the default (no size class, no high contrast), and the manager is initialized.
\<close>

lemma setupReducedMotion_working:
  assumes "\<not> storage_write_throws s"
  shows "\<exists>s1. setupReducedMotion s = Normal s1
           \<and> storage_read_throws s1 = storage_read_throws s
           \<and> storage_write_throws s1 = storage_write_throws s
           \<and> prefers_dark s1 = prefers_dark s
           \<and> storage s1 = (if prefers_reduced_motion s
                            then (storage s)(js ''reducedMotion'' \<mapsto> js ''true'') else storage s)
           \<and> root_classes s1 = (if prefers_reduced_motion s
                            then class_add (js ''reduce-motion'') (root_classes s) else root_classes s)"
  using assms
  by (auto simp: setupReducedMotion_def setReducedMotion_def setItem_def addEventListener_def
        announceToScreenReader_def setTimeout_def class_toggle_def bool_str_def)

lemma startup_reaches_load_working:
  assumes "\<not> storage_write_throws s"
  shows "\<exists>s5. storage_read_throws s5 = storage_read_throws s
           \<and> storage_write_throws s5 = storage_write_throws s
           \<and> prefers_dark s5 = prefers_dark s
           \<and> storage s5 = (if prefers_reduced_motion s
                            then (storage s)(js ''reducedMotion'' \<mapsto> js ''true'') else storage s)
           \<and> root_classes s5 = (if prefers_reduced_motion s
                            then class_add (js ''reduce-motion'') (root_classes s) else root_classes s)
           \<and> initializeComponents m s =
             try_catch
               (then_do (loadUserPreferences m s5) (\<lambda>s6.
                  Normal (log_msg Log ''Accessibility Manager initialized successfully''
                            (s6\<lparr>isInitialized := True\<rparr>))))
               (\<lambda>error s1. Normal (log_msg Error ''Error initializing Accessibility Manager:'' s1))"
proof -
  from setupAccessibilityPanel_returns [of s] obtain s1 where
    s1: "setupAccessibilityPanel s = Normal s1" "env_of s1 = env_of s" by blast
  let ?s4 = "setupKeyboardNavigation (setupFormValidation (setupThemeToggle s1))"
  have e4: "env_of ?s4 = env_of s"
    by (simp add: env_of_setupKeyboardNavigation env_of_setupFormValidation s1(2))
  with assms have "\<not> storage_write_throws ?s4"
    by (simp add: env_of_def)
  from setupReducedMotion_working [OF this] obtain s5 where
    s5: "setupReducedMotion ?s4 = Normal s5"
      "storage_read_throws s5 = storage_read_throws ?s4"
      "storage_write_throws s5 = storage_write_throws ?s4"
      "prefers_dark s5 = prefers_dark ?s4"
      "storage s5 = (if prefers_reduced_motion ?s4
                            then (storage ?s4)(js ''reducedMotion'' \<mapsto> js ''true'') else storage ?s4)"
      "root_classes s5 = (if prefers_reduced_motion ?s4
                            then class_add (js ''reduce-motion'') (root_classes ?s4) else root_classes ?s4)"
    by blast
  have i: "initializeComponents m s =
      try_catch
        (then_do (loadUserPreferences m s5) (\<lambda>s6.
           Normal (log_msg Log ''Accessibility Manager initialized successfully''
                     (s6\<lparr>isInitialized := True\<rparr>))))
        (\<lambda>error s1. Normal (log_msg Error ''Error initializing Accessibility Manager:'' s1))"
    by (simp add: initializeComponents_def s1(1) s5(1))
  from e4 have "storage_read_throws ?s4 = storage_read_throws s"
    "storage_write_throws ?s4 = storage_write_throws s" "prefers_dark ?s4 = prefers_dark s"
    "prefers_reduced_motion ?s4 = prefers_reduced_motion s" "storage ?s4 = storage s"
    "root_classes ?s4 = root_classes s"
    by (simp_all add: env_of_def)
  with s5(2-6) i show ?thesis by (intro exI [of _ s5]) simp
qed


lemma class_toggle_mem: "t \<in> set (class_toggle t b cs) \<longleftrightarrow> b"
  by (simp add: class_toggle_def class_add_def class_remove_def)

lemma class_toggle_other: "t' \<noteq> t \<Longrightarrow> t' \<in> set (class_toggle t b cs) \<longleftrightarrow> t' \<in> set cs"
  by (auto simp: class_toggle_def class_add_def class_remove_def)

lemma class_toggle_filter: "\<not> P t \<Longrightarrow> filter P (class_toggle t b cs) = filter P cs"
  by (induction cs) (auto simp: class_toggle_def class_add_def class_remove_def)

lemma class_add_mem: "t' \<in> set (class_add t cs) \<longleftrightarrow> t' = t \<or> t' \<in> set cs"
  by (auto simp: class_add_def)

lemma class_remove_mem: "t' \<in> set (class_remove t cs) \<longleftrightarrow> t' \<noteq> t \<and> t' \<in> set cs"
  by (auto simp: class_remove_def)

lemma apply_preferences_working:
  assumes "\<not> storage_write_throws s" and "Z = js ''normal'' \<or> valid_token (js ''text-'' @ Z)"
  shows "\<exists>s'. apply_preferences described_methods T Z H R s = Normal s'
           \<and> root_data_theme s' = Some T
           \<and> root_classes s' =
               class_toggle (js ''reduce-motion'') R
                 (class_toggle (js ''high-contrast'') H
                   (root_classes (final_state (setTextSize Z s))))"
proof -
  have w: "\<not> storage_write_throws (s\<lparr>root_data_theme := Some T, storage := (storage s)(js ''theme'' \<mapsto> T)\<rparr>)"
    using assms(1) by simp
  show ?thesis
    using assms
    by (auto simp: apply_preferences_def setTheme_def setTextSize_def setHighContrast_def
          setReducedMotion_def setItem_def announceToScreenReader_def setTimeout_def
          call_updateThemeControls_def described_methods_def Let_def)
qed


lemma load_described:
  assumes "\<not> storage_read_throws s" and "\<not> storage_write_throws s"
    and "or_else (storage s (js ''textSize'')) (js ''normal'') = js ''normal''
         \<or> valid_token (js ''text-'' @ or_else (storage s (js ''textSize'')) (js ''normal''))"
  shows "\<exists>s'. loadUserPreferences described_methods s = Normal s'
           \<and> root_data_theme s' =
               Some (or_else (storage s (js ''theme'')) (if prefers_dark s then js ''dark'' else js ''light''))
           \<and> root_classes s' =
               class_toggle (js ''reduce-motion'') (storage s (js ''reducedMotion'') = Some (js ''true''))
                 (class_toggle (js ''high-contrast'') (storage s (js ''highContrast'') = Some (js ''true''))
                   (root_classes (final_state
                      (setTextSize (or_else (storage s (js ''textSize'')) (js ''normal'')) s))))"
proof -
  let ?T = "or_else (storage s (js ''theme'')) (if prefers_dark s then js ''dark'' else js ''light'')"
  let ?Z = "or_else (storage s (js ''textSize'')) (js ''normal'')"
  let ?H = "storage s (js ''highContrast'') = Some (js ''true'')"
  let ?R = "storage s (js ''reducedMotion'') = Some (js ''true'')"
  from apply_preferences_working [OF assms(2,3), of ?T ?H ?R] obtain s' where
    s': "apply_preferences described_methods ?T ?Z ?H ?R s = Normal s'"
      "root_data_theme s' = Some ?T"
      "root_classes s' = class_toggle (js ''reduce-motion'') ?R
          (class_toggle (js ''high-contrast'') ?H (root_classes (final_state (setTextSize ?Z s))))"
    by blast
  have "loadUserPreferences described_methods s = Normal s'"
    using assms(1) s'(1)
    by (simp add: loadUserPreferences_def call_detectSystemTheme_def described_methods_def getItem_def)
  with s'(2,3) show ?thesis by blast
qed

lemma js_pref_keys:
  "js ''theme'' \<noteq> js ''reducedMotion''" "js ''textSize'' \<noteq> js ''reducedMotion''"
  "js ''highContrast'' \<noteq> js ''reducedMotion''"
  "js ''high-contrast'' \<noteq> js ''reduce-motion''" "js ''reduce-motion'' \<noteq> js ''high-contrast''"
  "js ''reduce-motion'' \<noteq> js ''text-large''" "js ''reduce-motion'' \<noteq> js ''text-extra-large''"
  "js ''high-contrast'' \<noteq> js ''text-large''" "js ''high-contrast'' \<noteq> js ''text-extra-large''"
  by (simp_all add: js_def)

lemma described_methods_fall_back:
  assumes "\<not> storage_read_throws s" and "\<not> storage_write_throws s"
    and "or_else (storage s (js ''textSize'')) (js ''normal'') = js ''normal''
         \<or> valid_token (js ''text-'' @ or_else (storage s (js ''textSize'')) (js ''normal''))"
  shows "isInitialized (final_state (initializeComponents described_methods s))"
    and "storage s (js ''theme'') = None \<Longrightarrow>
           root_data_theme (final_state (initializeComponents described_methods s))
             = Some (if prefers_dark s then js ''dark'' else js ''light'')"
    and "storage s (js ''textSize'') = None \<Longrightarrow>
           size_classes (final_state (initializeComponents described_methods s)) = []"
    and "storage s (js ''highContrast'') = None \<Longrightarrow>
           js ''high-contrast'' \<notin> set (root_classes (final_state (initializeComponents described_methods s)))"
    and "storage s (js ''reducedMotion'') = None \<Longrightarrow>
           js ''reduce-motion'' \<in> set (root_classes (final_state (initializeComponents described_methods s)))
             \<longleftrightarrow> prefers_reduced_motion s"
proof -
  from startup_reaches_load_working [OF assms(2), of described_methods] obtain s5 where
    s5: "storage_read_throws s5 = storage_read_throws s"
      "storage_write_throws s5 = storage_write_throws s"
      "prefers_dark s5 = prefers_dark s"
      "storage s5 = (if prefers_reduced_motion s
                       then (storage s)(js ''reducedMotion'' \<mapsto> js ''true'') else storage s)"
      "root_classes s5 = (if prefers_reduced_motion s
                       then class_add (js ''reduce-motion'') (root_classes s) else root_classes s)"
    and i: "initializeComponents described_methods s =
             try_catch
               (then_do (loadUserPreferences described_methods s5) (\<lambda>s6.
                  Normal (log_msg Log ''Accessibility Manager initialized successfully''
                            (s6\<lparr>isInitialized := True\<rparr>))))
               (\<lambda>error s1. Normal (log_msg Error ''Error initializing Accessibility Manager:'' s1))"
    by blast
  have keys: "storage s5 (js ''theme'') = storage s (js ''theme'')"
    "storage s5 (js ''textSize'') = storage s (js ''textSize'')"
    "storage s5 (js ''highContrast'') = storage s (js ''highContrast'')"
    using s5(4) by (simp_all add: js_pref_keys)
  have a: "\<not> storage_read_throws s5" "\<not> storage_write_throws s5"
    using assms(1,2) s5(1,2) by simp_all
  have z: "or_else (storage s5 (js ''textSize'')) (js ''normal'') = js ''normal''
         \<or> valid_token (js ''text-'' @ or_else (storage s5 (js ''textSize'')) (js ''normal''))"
    using assms(3) keys(2) by simp
  from load_described [OF a z] obtain s6 where
    s6: "loadUserPreferences described_methods s5 = Normal s6"
      "root_data_theme s6 =
         Some (or_else (storage s5 (js ''theme'')) (if prefers_dark s5 then js ''dark'' else js ''light''))"
      "root_classes s6 =
         class_toggle (js ''reduce-motion'') (storage s5 (js ''reducedMotion'') = Some (js ''true''))
           (class_toggle (js ''high-contrast'') (storage s5 (js ''highContrast'') = Some (js ''true''))
             (root_classes (final_state
                (setTextSize (or_else (storage s5 (js ''textSize'')) (js ''normal'')) s5))))"
    by blast
  let ?f = "final_state (initializeComponents described_methods s)"
  have f: "?f = log_msg Log ''Accessibility Manager initialized successfully'' (s6\<lparr>isInitialized := True\<rparr>)"
    by (simp add: i s6(1))
  show "isInitialized ?f" by (simp add: f log_msg_def)
  have rc: "root_classes ?f = root_classes s6" and rt: "root_data_theme ?f = root_data_theme s6"
    by (simp_all add: f log_msg_def)
  show "root_data_theme ?f = Some (if prefers_dark s then js ''dark'' else js ''light'')"
    if "storage s (js ''theme'') = None"
    using that by (simp add: rt s6(2) keys(1) s5(3) or_else_def)
  show "size_classes ?f = []" if "storage s (js ''textSize'') = None"
  proof -
    have "size_classes ?f = size_classes (final_state (setTextSize (js ''normal'') s5))"
      using that
      by (simp add: size_classes_def rc s6(3) keys(2) or_else_def class_toggle_filter js_pref_keys)
    then show ?thesis
      by (simp add: size_classes_setTextSize js_def)
  qed
  show "js ''high-contrast'' \<notin> set (root_classes ?f)" if "storage s (js ''highContrast'') = None"
    using that
    by (simp add: rc s6(3) keys(3) class_toggle_other js_pref_keys class_toggle_mem)
  show "js ''reduce-motion'' \<in> set (root_classes ?f) \<longleftrightarrow> prefers_reduced_motion s"
    if "storage s (js ''reducedMotion'') = None"
    using that s5(4)
    by (simp add: rc s6(3) class_toggle_mem js_def)
qed

lemma load_without_methods:
  "loadUserPreferences AccessibilityManager s =
     then_do (setTheme (js ''dark'') (log_msg Warn ''Error loading user preferences:'' s))
       (\<lambda>s2. Thrown TypeError s2)"
  by (simp add: loadUserPreferences_def call_detectSystemTheme_def call_updateThemeControls_def
        AccessibilityManager_def)

lemma load_without_methods_dark:
  "root_data_theme (final_state (loadUserPreferences AccessibilityManager s)) = Some (js ''dark'')
   \<and> root_classes (final_state (loadUserPreferences AccessibilityManager s)) = root_classes s
   \<and> (\<exists>e s'. loadUserPreferences AccessibilityManager s = Thrown e s')"
  unfolding load_without_methods
  by (simp add: setTheme_def setItem_def announceToScreenReader_def setTimeout_def log_msg_def)

text \<open>
  C8: the class as written. With no stored theme and a system that prefers the light
  scheme, startup ends with the theme dark and the manager not initialized: the call of
  the undefined detectSystemTheme throws before any preference is read, the catch block
  applies dark, and its call of the undefined updateThemeControls throws again.
\<close>

theorem system_theme_never_consulted:
  "storage light_system_page (js ''theme'') = None
   \<and> \<not> prefers_dark light_system_page
   \<and> root_data_theme (final_state (initializeComponents AccessibilityManager light_system_page))
       = Some (js ''dark'')
   \<and> \<not> isInitialized (final_state (initializeComponents AccessibilityManager light_system_page))"
proof -
  have np: "\<not> (prefers_reduced_motion light_system_page \<and> storage_write_throws light_system_page)"
    by (simp add: light_system_page_def empty_page_def)
  from startup_reaches_load [OF np, of AccessibilityManager] obtain s5 where
    i: "initializeComponents AccessibilityManager light_system_page =
             try_catch
               (then_do (loadUserPreferences AccessibilityManager s5) (\<lambda>s6.
                  Normal (log_msg Log ''Accessibility Manager initialized successfully''
                            (s6\<lparr>isInitialized := True\<rparr>))))
               (\<lambda>error s1. Normal (log_msg Error ''Error initializing Accessibility Manager:'' s1))"
    by blast
  have th: "root_data_theme (final_state (initializeComponents AccessibilityManager light_system_page))
       = Some (js ''dark'')"
    unfolding i after_load_data_theme using load_without_methods_dark [of s5] by simp
  have ini: "\<not> isInitialized (final_state (initializeComponents AccessibilityManager light_system_page))"
    by (simp add: initializeComponents_def setupAccessibilityPanel_def setupThemeToggle_def
          setupFormValidation_def setupKeyboardNavigation_def setupReducedMotion_def
          load_without_methods setTheme_def setItem_def announceToScreenReader_def setTimeout_def
          log_msg_def addEventListener_def light_system_page_def empty_page_def Let_def)
  show ?thesis
    using th ini by (simp add: light_system_page_def empty_page_def)
qed

end
